theory Spec2Isabelle
  imports Complex_Main "HOL-Library.Sublist"
begin

section \<open>Values shared by the device and the webdriver modules\<close>

text \<open>
  What a JavaScript function can throw or reject with. \<open>Error m\<close> is an \<open>Error\<close> object
  with message \<open>m\<close>; \<open>TypeError\<close> is what the engine raises on a property access or an
  iteration over \<open>undefined\<close>; \<open>External m\<close> is a failure raised by an external command or
  library; \<open>Reason m\<close> is a bare string handed to \<open>reject\<close>.
\<close>

datatype error = Error string | TypeError | External string | Reason string

text \<open>
  The fate of a promise: resolved with a value, rejected, or never settled because an
  exception left a timer or library callback (it escapes to the host as an uncaught
  exception, which by default ends the Node process).
\<close>

datatype 'a outcome = Resolved 'a | Rejected error | Uncaught error

text \<open>
  A JavaScript number: not-a-number, the two infinities, or a finite value. Finite
  values are rationals (every finite double is one), and a decimal literal of the source
  stands for the rational it writes.
\<close>

datatype jsnum = NaN | NegInf | Fin rat | PosInf

text \<open>The \<open><=\<close> of two numbers: false as soon as one side is \<open>NaN\<close>.\<close>

fun js_le :: "jsnum \<Rightarrow> jsnum \<Rightarrow> bool" where
  "js_le NaN y = False"
| "js_le x NaN = False"
| "js_le NegInf y = True"
| "js_le x PosInf = True"
| "js_le (Fin a) (Fin b) = (a \<le> b)"
| "js_le PosInf y = False"
| "js_le x NegInf = False"

text \<open>The configuration object handed to the crop utility.\<close>

record region =
  r_height :: rat
  r_width :: rat
  r_top :: rat

text \<open>The external commands and library calls made, in order.\<close>

datatype call =
    Exec string
  | Spawn string "string list"
  | LibCall string
  | EnsureDir string
  | WriteFile string string
  | Crop string "region option"
  | Compare string string
  | Unlink string

text \<open>\<open>String.prototype.includes\<close>.\<close>

definition str_includes :: "string \<Rightarrow> string \<Rightarrow> bool" where
  "str_includes s sub = sublist sub s"

text \<open>\<open>String.prototype.split\<close> with a one-character separator.\<close>

fun split_on :: "char \<Rightarrow> string \<Rightarrow> string list" where
  "split_on sep [] = [] # []"
| "split_on sep (c # cs) =
     (if c = sep then [] # split_on sep cs
      else (case split_on sep cs of
              [] \<Rightarrow> (c # []) # []
            | p # ps \<Rightarrow> (c # p) # ps))"

text \<open>A missing array element printed through a template literal.\<close>

definition part :: "string list \<Rightarrow> nat \<Rightarrow> string" where
  "part xs i = (if i < length xs then xs ! i else ''undefined'')"

text \<open>\<open>!x\<close> on an argument that is a string or missing.\<close>

definition falsy :: "string option \<Rightarrow> bool" where
  "falsy x = (case x of None \<Rightarrow> True | Some s \<Rightarrow> s = [])"

text \<open>A missing argument printed through a template literal.\<close>

definition str :: "string option \<Rightarrow> string" where
  "str x = (case x of None \<Rightarrow> ''undefined'' | Some s \<Rightarrow> s)"

section \<open>device.js: the registry and process queries\<close>

record ti_sim =
  ti_name :: string
  ti_udid :: string

record xcrun_sim =
  xc_udid :: string
  xc_state :: string

text \<open>
  One reading of the outside world: the parsed \<open>ios.simulators.ios\<close> object of
  \<open>ti info -t ios -o json\<close> (a version to its simulators) and the parsed \<open>devices\<close> object
  of \<open>xcrun simctl list --json\<close> (a runtime key to its simulators). \<open>Inl\<close> is the command
  failing or its output not parsing.
\<close>

record snapshot =
  ti_info :: "error + (string \<rightharpoonup> ti_sim list)"
  xcrun_list :: "error + (string \<rightharpoonup> xcrun_sim list)"

definition ti_cmd :: string where
  "ti_cmd = ''ti info -t ios -o json''"

definition xcrun_cmd :: string where
  "xcrun_cmd = ''xcrun simctl list --json''"

definition udid_issue_msg :: "string \<Rightarrow> string \<Rightarrow> string" where
  "udid_issue_msg simName simVersion =
     ''An issue occured trying to find the UDID of iOS simulator '' @ [CHR 0x22] @ simName
       @ '' ('' @ simVersion @ '')'' @ [CHR 0x22] @ '', do you have this simulator configured?''"

definition udid_missing_msg :: "string \<Rightarrow> string \<Rightarrow> string" where
  "udid_missing_msg simName simVersion =
     ''Cannot find a UDID for simulator '' @ simName @ '' ('' @ simVersion @ '')''"

text \<open>
  \<open>getUdid\<close>: the \<open>for ... of\<close> over a missing version bucket raises inside the
  \<open>try\<close>, and the \<open>catch\<close> replaces it; a bucket without the name falls through to
  the last \<open>throw\<close>.
\<close>

definition getUdid :: "snapshot \<Rightarrow> string \<Rightarrow> string \<Rightarrow> (error + string) \<times> call list" where
  "getUdid snap simName simVersion =
     (case ti_info snap of
        Inl e \<Rightarrow> (Inl e, [Exec ti_cmd])
      | Inr sims \<Rightarrow>
          (case sims simVersion of
             None \<Rightarrow> (Inl (Error (udid_issue_msg simName simVersion)), [Exec ti_cmd])
           | Some tiSims \<Rightarrow>
               (case find (\<lambda>tiSim. ti_name tiSim = simName) tiSims of
                  Some tiSim \<Rightarrow> (Inr (ti_udid tiSim), [Exec ti_cmd])
                | None \<Rightarrow> (Inl (Error (udid_missing_msg simName simVersion)), [Exec ti_cmd]))))"

definition state_issue_msg :: "string \<Rightarrow> string \<Rightarrow> string" where
  "state_issue_msg simName simVersion =
     ''An issue occured trying to get the boot status of iOS simulator '' @ [CHR 0x22] @ simName
       @ '' ('' @ simVersion @ '')'' @ [CHR 0x22] @ '', do you have this simulator configured?''"

definition state_missing_msg :: "string \<Rightarrow> string \<Rightarrow> string" where
  "state_missing_msg simName simVersion =
     ''Cannot retrieve a status for simulator '' @ simName @ '' ('' @ simVersion @ '')''"

definition runtime_key :: "string \<Rightarrow> string" where
  "runtime_key simVersion =
     (let versionParts = split_on (CHR ''.'') simVersion
      in ''com.apple.CoreSimulator.SimRuntime.iOS-'' @ part versionParts 0 @ ''-''
           @ part versionParts 1)"

definition getState :: "snapshot \<Rightarrow> string \<Rightarrow> string \<Rightarrow> (error + string) \<times> call list" where
  "getState snap simName simVersion =
     (case getUdid snap simName simVersion of
        (Inl e, cs) \<Rightarrow> (Inl e, cs)
      | (Inr udid, cs) \<Rightarrow>
          (case xcrun_list snap of
             Inl e \<Rightarrow> (Inl e, cs @ [Exec xcrun_cmd])
           | Inr devices \<Rightarrow>
               (case devices (runtime_key simVersion) of
                  None \<Rightarrow> (Inl (Error (state_issue_msg simName simVersion)), cs @ [Exec xcrun_cmd])
                | Some xcrunSims \<Rightarrow>
                    (case find (\<lambda>xcrunSim. xc_udid xcrunSim = udid) xcrunSims of
                       Some xcrunSim \<Rightarrow> (Inr (xc_state xcrunSim), cs @ [Exec xcrun_cmd])
                     | None \<Rightarrow>
                         (Inl (Error (state_missing_msg simName simVersion)),
                          cs @ [Exec xcrun_cmd])))))"

record proc =
  pid :: nat
  pname :: string
  cmd :: string

definition pid_missing_msg :: "string \<Rightarrow> string" where
  "pid_missing_msg deviceName = ''Cannot find an Android PID for '' @ deviceName"

text \<open>
  \<open>getAndroidPID\<close>: \<open>list.find\<close> gives \<open>undefined\<close> when nothing matches, the read
  of \<open>proc.pid\<close> then raises, and the \<open>catch\<close> replaces whatever was raised (a failing
  \<open>ps()\<close> too).
\<close>

definition getAndroidPID :: "string \<Rightarrow> error + proc list \<Rightarrow> string \<Rightarrow> (error + nat) \<times> call list" where
  "getAndroidPID platform ps deviceName =
     (case ps of
        Inl e \<Rightarrow> (Inl (Error (pid_missing_msg deviceName)), [LibCall ''ps-list''])
      | Inr list \<Rightarrow>
          (case (if platform = ''win32''
                 then find (\<lambda>x. str_includes (pname x) ''qemu-system-x86_64'') list
                 else find (\<lambda>x. str_includes (cmd x) deviceName) list) of
             None \<Rightarrow> (Inl (Error (pid_missing_msg deviceName)), [LibCall ''ps-list''])
           | Some p \<Rightarrow> (Inr (pid p), [LibCall ''ps-list''])))"

section \<open>device.js: the shutdown poll\<close>

definition timeout_msg :: string where
  "timeout_msg = ''iOS simulator didn'' @ [CHR 0x27]
     @ ''t shutdown in expected time, you may expierience instability''"

text \<open>
  The delay Node's timers use for a requested one: a delay that is not between 1 and
  \<open>2^31 - 1\<close> milliseconds is replaced by 1.
\<close>

definition TIMEOUT_MAX :: int where
  "TIMEOUT_MAX = 2147483647"

definition timer_delay :: "int \<Rightarrow> nat" where
  "timer_delay after = (if 1 \<le> after \<and> after \<le> TIMEOUT_MAX then nat after else 1)"

text \<open>
  The callback of \<open>setInterval\<close>, run until the interval is cleared. Time is a virtual
  clock in milliseconds: a timer armed at \<open>now\<close> fires \<open>period\<close> later, \<open>period\<close>
  being the delay the timer uses, and a callback takes no time. \<open>src k\<close> is the world
  read by the call of \<open>getState\<close> number \<open>k\<close> (from 0). The result is the promise's
  fate, the times of the checks and the commands run. An exception of \<open>getState\<close>
  leaves the callback before \<open>count++\<close> and before any \<open>clearInterval\<close>; the run is
  followed up to there and ends as an uncaught exception.
\<close>

function poll :: "(nat \<Rightarrow> snapshot) \<Rightarrow> string \<Rightarrow> string \<Rightarrow> nat \<Rightarrow> nat \<Rightarrow> nat
    \<Rightarrow> unit outcome \<times> nat list \<times> call list" where
  "poll src simName simVersion period count now =
     (case getState (src count) simName simVersion of
        (Inl e, cs) \<Rightarrow> (Uncaught e, [now + period], cs)
      | (Inr state, cs) \<Rightarrow>
          (if state = ''Shutdown'' then (Resolved (), [now + period], cs)
           else if 20 \<le> Suc count then (Rejected (Reason timeout_msg), [now + period], cs)
           else (case poll src simName simVersion period (Suc count) (now + period) of
                   (out, ts, cs') \<Rightarrow> (out, (now + period) # ts, cs @ cs'))))"
  by pat_completeness auto
termination
  by (relation "measure (\<lambda>(src, simName, simVersion, period, count, now). 20 - count)") auto

text \<open>
  \<open>isShutdown\<close>: \<open>setTimeout\<close> fires after the delay used for \<open>initialWait\<close> and arms
  the interval, with \<open>count = 0\<close> and the delay used for \<open>intervalWait\<close>.
\<close>

definition isShutdown :: "(nat \<Rightarrow> snapshot) \<Rightarrow> string \<Rightarrow> string \<Rightarrow> int \<Rightarrow> int
    \<Rightarrow> unit outcome \<times> nat list \<times> call list" where
  "isShutdown src simName simVersion initialWait intervalWait =
     poll src simName simVersion (timer_delay intervalWait) 0 (timer_delay initialWait)"

section \<open>device.js: the entry points\<close>

text \<open>
  The world of one call of \<open>killSim\<close>: the registry read by its own \<open>getUdid\<close>, the
  result of \<open>xcrun simctl shutdown\<close>, the worlds read by the poll, and the exit status of
  the spawned \<open>killall\<close>, which the code never reads.
\<close>

record world =
  registry :: snapshot
  shutdown_result :: "error option"
  polled :: "nat \<Rightarrow> snapshot"
  killall_exit :: int

definition default_nat :: "nat option \<Rightarrow> nat \<Rightarrow> nat" where
  "default_nat v d = (case v of None \<Rightarrow> d | Some n \<Rightarrow> n)"

definition default_int :: "int option \<Rightarrow> int \<Rightarrow> int" where
  "default_int v d = (case v of None \<Rightarrow> d | Some n \<Rightarrow> n)"

definition killSim :: "world \<Rightarrow> string option \<Rightarrow> string option \<Rightarrow> int option \<Rightarrow> int option
    \<Rightarrow> unit outcome \<times> call list" where
  "killSim w simName simVersion initialWait intervalWait =
     (if falsy simName then (Rejected (Error ''Empty simulator name argument passed''), [])
      else if falsy simVersion then (Rejected (Error ''Empty simulator version passed''), [])
      else
        (case getUdid (registry w) (str simName) (str simVersion) of
           (Inl e, cs) \<Rightarrow> (Rejected e, cs)
         | (Inr udid, cs) \<Rightarrow>
             (case shutdown_result w of
                Some e \<Rightarrow> (Rejected e, cs @ [Exec (''xcrun simctl shutdown '' @ udid)])
              | None \<Rightarrow>
                  (case isShutdown (polled w) (str simName) (str simVersion)
                          (default_int initialWait 10000) (default_int intervalWait 5000) of
                     (Resolved u, ts, cs') \<Rightarrow>
                       (Resolved (),
                        cs @ [Exec (''xcrun simctl shutdown '' @ udid)] @ cs'
                          @ [Spawn ''killall'' [''Simulator'']])
                   | (Rejected e, ts, cs') \<Rightarrow>
                       (Rejected e, cs @ [Exec (''xcrun simctl shutdown '' @ udid)] @ cs')
                   | (Uncaught e, ts, cs') \<Rightarrow>
                       (Uncaught e, cs @ [Exec (''xcrun simctl shutdown '' @ udid)] @ cs')))))"

definition getSimState :: "snapshot \<Rightarrow> string option \<Rightarrow> string option
    \<Rightarrow> (error + string) \<times> call list" where
  "getSimState snap simName simVersion =
     (if falsy simName then (Inl (Error ''Empty simulator name argument passed''), [])
      else if falsy simVersion then (Inl (Error ''Empty simulator version passed''), [])
      else getState snap (str simName) (str simVersion))"

record cert =
  cert_name :: string
  cert_serial :: string

definition cert_type_msg :: "string \<Rightarrow> string" where
  "cert_type_msg type = ''Argument '' @ [CHR 0x27] @ type @ [CHR 0x27]
     @ '' is not a valid type of certificate''"

definition cert_missing_msg :: "string \<Rightarrow> string" where
  "cert_missing_msg search = ''No certificate found with a name including '' @ [CHR 0x27]
     @ search @ [CHR 0x27]"

text \<open>
  \<open>getCert\<close>. \<open>certs\<close> is what \<open>ioslib.certs.getCerts()\<close> yields: a certificate type to
  its certificates. The \<open>forEach\<close> overwrites \<open>foundCert\<close> at every match, so the last
  match is returned; \<open>None\<close> is the \<open>undefined\<close> returned off macOS.
\<close>

definition getCert :: "string \<Rightarrow> error + (string \<rightharpoonup> cert list) \<Rightarrow> string \<Rightarrow> string
    \<Rightarrow> cert option outcome \<times> call list" where
  "getCert platform certs type search =
     (if platform \<noteq> ''darwin'' then (Resolved None, [])
      else
        (case certs of
           Inl e \<Rightarrow> (Rejected e, [LibCall ''ioslib.certs.getCerts''])
         | Inr cs \<Rightarrow>
             (if type \<notin> set [''developer'', ''distribution'']
              then (Rejected (Error (cert_type_msg type)), [LibCall ''ioslib.certs.getCerts''])
              else
                (case cs type of
                   None \<Rightarrow> (Rejected TypeError, [LibCall ''ioslib.certs.getCerts''])
                 | Some subCerts \<Rightarrow>
                     (case filter (\<lambda>c. str_includes (cert_name c) search) subCerts of
                        [] \<Rightarrow> (Rejected (Error (cert_missing_msg search)),
                               [LibCall ''ioslib.certs.getCerts''])
                      | c # cs' \<Rightarrow> (Resolved (Some (last (c # cs'))),
                                    [LibCall ''ioslib.certs.getCerts'']))))))"

section \<open>webdriver.js: the text commands\<close>

definition is_word_char :: "char \<Rightarrow> bool" where
  \<comment> \<open>The class \<open>\w\<close>.\<close>
  "is_word_char c =
     (let n = (of_char c :: nat)
      in (97 \<le> n \<and> n \<le> 122) \<or> (65 \<le> n \<and> n \<le> 90) \<or> (48 \<le> n \<and> n \<le> 57) \<or> n = 95)"

definition is_space_char :: "char \<Rightarrow> bool" where
  \<comment> \<open>The complement of \<open>\S\<close>, on ASCII text: tab, line feed, vertical tab, form feed,
     carriage return and space.\<close>
  "is_space_char c = (let n = (of_char c :: nat) in (9 \<le> n \<and> n \<le> 13) \<or> n = 32)"

definition upper_char :: "char \<Rightarrow> char" where
  "upper_char c =
     (let n = (of_char c :: nat) in if 97 \<le> n \<and> n \<le> 122 then char_of (n - 32) else c)"

definition lower_char :: "char \<Rightarrow> char" where
  "lower_char c =
     (let n = (of_char c :: nat) in if 65 \<le> n \<and> n \<le> 90 then char_of (n + 32) else c)"

text \<open>\<open>toUpperCase\<close> and \<open>toLowerCase\<close>, on ASCII text.\<close>

definition toUpperCase :: "string \<Rightarrow> string" where
  "toUpperCase s = map upper_char s"

definition toLowerCase :: "string \<Rightarrow> string" where
  "toLowerCase s = map lower_char s"

text \<open>
  \<open>titleCase\<close>: every match of \<open>/\w\S*/g\<close>, a word character and the run of
  non-blank characters after it, is replaced by its first character in upper case and
  the rest in lower case; what lies between matches is kept.
\<close>

function titleCase :: "string \<Rightarrow> string" where
  "titleCase [] = []"
| "titleCase (c # cs) =
     (if is_word_char c
      then upper_char c # toLowerCase (takeWhile (\<lambda>x. \<not> is_space_char x) cs)
             @ titleCase (dropWhile (\<lambda>x. \<not> is_space_char x) cs)
      else c # titleCase cs)"
  by pat_completeness auto
termination
  by (relation "measure length") (auto simp: length_dropWhile_le less_Suc_eq_le)

text \<open>
  The number that \<open>x.toFixed(2)\<close> writes, as \<open>>=\<close> reads it back: the multiple of
  \<open>1/100\<close> nearest to \<open>x\<close>, the larger one in magnitude at a tie; from \<open>10^21\<close> on and
  off the finite numbers \<open>toFixed\<close> writes \<open>x\<close> itself.
\<close>

definition toFixed2 :: "jsnum \<Rightarrow> jsnum" where
  "toFixed2 x =
     (case x of
        Fin r \<Rightarrow>
          (if 10 ^ 21 \<le> \<bar>r\<bar> then Fin r
           else if r < 0 then Fin (- (of_int \<lfloor>- r * 100 + 1 / 2\<rfloor> / 100))
           else Fin (of_int \<lfloor>r * 100 + 1 / 2\<rfloor> / 100))
      | _ \<Rightarrow> x)"

definition default_bool :: "bool option \<Rightarrow> bool \<Rightarrow> bool" where
  "default_bool v d = (case v of None \<Rightarrow> d | Some b \<Rightarrow> b)"

text \<open>
  The \<open>Android\<close> case of the three text commands, which they repeat verbatim:
  \<open>version\<close> is \<open>parseFloat(sessions[0].capabilities.platformVersion)\<close>, and the
  result is the \<open>text\<close> put into the selector.
\<close>

definition android_text :: "jsnum \<Rightarrow> bool \<Rightarrow> string \<Rightarrow> string" where
  "android_text version preserve text =
     (if js_le (Fin 7) (toFixed2 version)
      then (if \<not> preserve then toUpperCase text else text)
      else if \<not> preserve then titleCase text
      else text)"

definition ui_selector :: "string \<Rightarrow> string" where
  "ui_selector text = ''new UiSelector().text('' @ [CHR 0x22] @ text @ [CHR 0x22] @ '')''"

text \<open>What a text command asks the driver for; \<open>None\<close> when no \<open>case\<close> matches.\<close>

datatype lookup =
    ElementById string
  | ElementByAndroidUIAutomator string
  | ElementsById string
  | ElementsByAndroidUIAutomator string
  | WaitForElementById string nat
  | WaitForElementByAndroidUIAutomator string nat

definition elementText :: "string \<Rightarrow> jsnum \<Rightarrow> string \<Rightarrow> bool option \<Rightarrow> lookup option" where
  "elementText platformName version text preserve =
     (if platformName = ''iOS'' then Some (ElementById text)
      else if platformName = ''Android''
      then Some (ElementByAndroidUIAutomator
                   (ui_selector (android_text version (default_bool preserve False) text)))
      else None)"

definition elementsText :: "string \<Rightarrow> jsnum \<Rightarrow> string \<Rightarrow> bool option \<Rightarrow> lookup option" where
  "elementsText platformName version text preserve =
     (if platformName = ''iOS'' then Some (ElementsById text)
      else if platformName = ''Android''
      then Some (ElementsByAndroidUIAutomator
                   (ui_selector (android_text version (default_bool preserve False) text)))
      else None)"

definition waitForElementText :: "string \<Rightarrow> jsnum \<Rightarrow> string \<Rightarrow> bool option \<Rightarrow> nat option
    \<Rightarrow> lookup option" where
  "waitForElementText platformName version text preserve time =
     (if platformName = ''iOS'' then Some (WaitForElementById text (default_nat time 1000))
      else if platformName = ''Android''
      then Some (WaitForElementByAndroidUIAutomator
                   (ui_selector (android_text version (default_bool preserve False) text))
                   (default_nat time 1000))
      else None)"

section \<open>webdriver.js: the screenshot pipeline\<close>

type_synonym files = "string \<rightharpoonup> string"

record parsed_path =
  p_root :: string
  p_dir :: string
  p_base :: string
  p_ext :: string
  p_name :: string

text \<open>
  The libraries the pipeline calls, as functions on the files: \<open>fs-extra\<close>,
  \<open>png-crop\<close> (its callback's error and the files it leaves), \<open>node-resemble-js\<close>
  (the \<open>misMatchPercentage\<close> it reports), \<open>path\<close>, and the printing of a number by a
  template literal.
\<close>

record env =
  ensureDirSync :: "string \<Rightarrow> files \<Rightarrow> error + files"
  writeFileSync :: "string \<Rightarrow> string \<Rightarrow> files \<Rightarrow> error + files"
  unlinkSync :: "string \<Rightarrow> files \<Rightarrow> error + files"
  pngcrop :: "string \<Rightarrow> string \<Rightarrow> region option \<Rightarrow> files \<Rightarrow> error option \<times> files"
  resemble :: "string \<Rightarrow> string \<Rightarrow> files \<Rightarrow> jsnum"
  path_join :: "string \<Rightarrow> string \<Rightarrow> string"
  path_basename :: "string \<Rightarrow> string"
  path_parse :: "string \<Rightarrow> parsed_path"
  path_format :: "parsed_path \<Rightarrow> string"
  num_str :: "jsnum \<Rightarrow> string"

text \<open>
  \<open>cropImg\<close>. With no dimensions the promise is resolved first, and since nothing
  returns there, \<open>pngcrop.crop\<close> is still called; what its callback does later to the
  settled promise has no effect. The model lets the utility finish before the caller
  goes on.
\<close>

definition cropImg :: "env \<Rightarrow> string \<Rightarrow> region option \<Rightarrow> files
    \<Rightarrow> string option outcome \<times> files \<times> call list" where
  "cropImg io imgPath dimensions fs =
     (case pngcrop io imgPath imgPath dimensions fs of
        (cropErr, fs') \<Rightarrow>
          (case dimensions of
             None \<Rightarrow> (Resolved None, fs', [Crop imgPath dimensions])
           | Some d \<Rightarrow>
               (case cropErr of
                  Some e \<Rightarrow> (Rejected e, fs', [Crop imgPath dimensions])
                | None \<Rightarrow> (Resolved (Some imgPath), fs', [Crop imgPath dimensions]))))"

text \<open>\<open>if (thresh)\<close>: \<open>undefined\<close>, \<open>0\<close> and \<open>NaN\<close> are falsy.\<close>

definition truthy_num :: "jsnum option \<Rightarrow> bool" where
  "truthy_num t =
     (case t of None \<Rightarrow> False | Some NaN \<Rightarrow> False | Some (Fin r) \<Rightarrow> r \<noteq> 0 | Some _ \<Rightarrow> True)"

definition threshold_of :: "jsnum option \<Rightarrow> jsnum" where
  "threshold_of thresh =
     (case thresh of
        None \<Rightarrow> Fin (1 / 10)
      | Some t \<Rightarrow> if truthy_num thresh then t else Fin (1 / 10))"

definition threshold_msg :: "env \<Rightarrow> jsnum \<Rightarrow> jsnum \<Rightarrow> string" where
  "threshold_msg io threshold misMatchPercentage =
     ''Images didn't meet required threshold, wanted below: '' @ num_str io threshold
       @ ''%, got: '' @ num_str io misMatchPercentage @ ''%''"

text \<open>
  \<open>compImg\<close>. \<open>unlinkSync\<close> runs inside the \<open>onComplete\<close> callback, so an
  exception of it is not turned into a rejection.
\<close>

definition compImg :: "env \<Rightarrow> string \<Rightarrow> string \<Rightarrow> jsnum option \<Rightarrow> files
    \<Rightarrow> unit outcome \<times> files \<times> call list" where
  "compImg io testImg reference thresh fs =
     (let threshold = threshold_of thresh;
          misMatchPercentage = resemble io testImg reference fs
      in if js_le misMatchPercentage threshold
         then (case unlinkSync io testImg fs of
                 Inl e \<Rightarrow> (Uncaught e, fs, [Compare testImg reference, Unlink testImg])
               | Inr fs' \<Rightarrow> (Resolved (), fs', [Compare testImg reference, Unlink testImg]))
         else (Rejected (Error (threshold_msg io threshold misMatchPercentage)), fs,
               [Compare testImg reference]))"

definition candidate_path :: "env \<Rightarrow> string \<Rightarrow> string \<Rightarrow> string" where
  "candidate_path io file modRoot =
     (let screenshotDir = path_join io modRoot ''Screen_Shots'';
          screenshotPath = path_join io screenshotDir (path_basename io file);
          elem = path_parse io screenshotPath
      in path_format io
           \<lparr>p_root = p_root elem, p_dir = p_dir elem, p_base = [], p_ext = p_ext elem,
            p_name = p_name elem @ ''_Test''\<rparr>)"

definition processImg :: "env \<Rightarrow> string \<Rightarrow> string \<Rightarrow> string \<Rightarrow> jsnum option \<Rightarrow> bool
    \<Rightarrow> region option \<Rightarrow> files \<Rightarrow> unit outcome \<times> files \<times> call list" where
  "processImg io file modRoot screenshot thresh overwrite dimensions fs =
     (let screenshotDir = path_join io modRoot ''Screen_Shots''
      in case ensureDirSync io screenshotDir fs of
           Inl e \<Rightarrow> (Rejected e, fs, [EnsureDir screenshotDir])
         | Inr fs1 \<Rightarrow>
             (if overwrite
              then (case writeFileSync io file screenshot fs1 of
                      Inl e \<Rightarrow>
                        (Rejected e, fs1, [EnsureDir screenshotDir, WriteFile file screenshot])
                    | Inr fs2 \<Rightarrow>
                        (case cropImg io file dimensions fs2 of
                           (Resolved r, fs3, cs) \<Rightarrow>
                             (Resolved (), fs3,
                              [EnsureDir screenshotDir, WriteFile file screenshot] @ cs)
                         | (Rejected e, fs3, cs) \<Rightarrow>
                             (Rejected e, fs3,
                              [EnsureDir screenshotDir, WriteFile file screenshot] @ cs)
                         | (Uncaught e, fs3, cs) \<Rightarrow>
                             (Uncaught e, fs3,
                              [EnsureDir screenshotDir, WriteFile file screenshot] @ cs)))
              else (let screenshotPath = candidate_path io file modRoot
                    in case writeFileSync io screenshotPath screenshot fs1 of
                         Inl e \<Rightarrow>
                           (Rejected e, fs1,
                            [EnsureDir screenshotDir, WriteFile screenshotPath screenshot])
                       | Inr fs2 \<Rightarrow>
                           (case cropImg io screenshotPath dimensions fs2 of
                              (Resolved r, fs3, cs) \<Rightarrow>
                                (case compImg io screenshotPath file thresh fs3 of
                                   (out, fs4, cs') \<Rightarrow>
                                     (out, fs4,
                                      [EnsureDir screenshotDir,
                                       WriteFile screenshotPath screenshot] @ cs @ cs'))
                            | (Rejected e, fs3, cs) \<Rightarrow>
                                (Rejected e, fs3,
                                 [EnsureDir screenshotDir,
                                  WriteFile screenshotPath screenshot] @ cs)
                            | (Uncaught e, fs3, cs) \<Rightarrow>
                                (Uncaught e, fs3,
                                 [EnsureDir screenshotDir,
                                  WriteFile screenshotPath screenshot] @ cs)))))"

text \<open>The default \<open>thresh = 0.20\<close> of the two screenshot commands: it fills in for
  \<open>undefined\<close> only.\<close>

definition default_thresh :: "jsnum option \<Rightarrow> jsnum option" where
  "default_thresh thresh = (case thresh of None \<Rightarrow> Some (Fin (1 / 5)) | Some t \<Rightarrow> Some t)"

record bounds =
  b_x :: rat
  b_y :: rat
  b_width :: rat
  b_height :: rat

text \<open>
  What the session answers during one screenshot command: the platform, the bounds of
  the application and of the status bar (iOS), how many \<open>decor_content_parent\<close>
  elements there are and the bounds of the first (Android), and the screenshot.
\<close>

record driver =
  sleep :: "error option"
  getPlatform :: "error + string"
  application_bounds :: "error + bounds"
  statusbar_bounds :: "error + bounds"
  decor_count :: "error + nat"
  decor_bounds :: "error + bounds"
  takeScreenshot :: "error + string"

definition shoot :: "env \<Rightarrow> driver \<Rightarrow> string \<Rightarrow> string \<Rightarrow> jsnum option \<Rightarrow> bool
    \<Rightarrow> region option \<Rightarrow> files \<Rightarrow> unit outcome \<times> files \<times> call list" where
  \<comment> \<open>\<open>takeScreenshot\<close> and \<open>processImg\<close>, the tail of every branch.\<close>
  "shoot io d file modRoot thresh overwrite dimensions fs =
     (case takeScreenshot d of
        Inl e \<Rightarrow> (Rejected e, fs, [])
      | Inr screenshot \<Rightarrow> processImg io file modRoot screenshot thresh overwrite dimensions fs)"

definition screenshotTest :: "env \<Rightarrow> driver \<Rightarrow> string \<Rightarrow> string \<Rightarrow> jsnum option
    \<Rightarrow> bool option \<Rightarrow> files \<Rightarrow> unit outcome \<times> files \<times> call list" where
  "screenshotTest io d file modRoot thresh overwrite fs =
     (case sleep d of
        Some e \<Rightarrow> (Rejected e, fs, [])
      | None \<Rightarrow>
          (case getPlatform d of
             Inl e \<Rightarrow> (Rejected e, fs, [])
           | Inr platform \<Rightarrow>
               (if platform = ''iOS''
                then (case application_bounds d of
                        Inl e \<Rightarrow> (Rejected e, fs, [])
                      | Inr winVal \<Rightarrow>
                          (case statusbar_bounds d of
                             Inl e \<Rightarrow> (Rejected e, fs, [])
                           | Inr statusVal \<Rightarrow>
                               shoot io d file modRoot (default_thresh thresh)
                                 (default_bool overwrite False)
                                 (Some \<lparr>r_height = b_height winVal * 2,
                                        r_width = b_width winVal * 2,
                                        r_top = b_height statusVal * 2\<rparr>) fs))
                else if platform = ''Android''
                then (case decor_count d of
                        Inl e \<Rightarrow> (Rejected e, fs, [])
                      | Inr n \<Rightarrow>
                          (if 0 < n
                           then (case decor_bounds d of
                                   Inl e \<Rightarrow> (Rejected e, fs, [])
                                 | Inr bounds \<Rightarrow>
                                     shoot io d file modRoot (default_thresh thresh)
                                       (default_bool overwrite False)
                                       (Some \<lparr>r_height = b_height bounds,
                                              r_width = b_width bounds,
                                              r_top = b_y bounds\<rparr>) fs)
                           else shoot io d file modRoot (default_thresh thresh)
                                  (default_bool overwrite False) None fs))
                else (Resolved (), fs, []))))"

definition fullScreenshotTest :: "env \<Rightarrow> driver \<Rightarrow> string \<Rightarrow> string \<Rightarrow> jsnum option
    \<Rightarrow> bool option \<Rightarrow> files \<Rightarrow> unit outcome \<times> files \<times> call list" where
  "fullScreenshotTest io d file modRoot thresh overwrite fs =
     (case sleep d of
        Some e \<Rightarrow> (Rejected e, fs, [])
      | None \<Rightarrow>
          shoot io d file modRoot (default_thresh thresh) (default_bool overwrite False) None fs)"

section \<open>Example worlds\<close>

text \<open>
  A registry with one simulator, \<open>iPhone 7\<close> on iOS 12.2, reported in the given state.
\<close>

definition sim_snapshot :: "string \<Rightarrow> snapshot" where
  "sim_snapshot state =
     \<lparr>ti_info = Inr [''12.2'' \<mapsto> [\<lparr>ti_name = ''iPhone 7'', ti_udid = ''ABCD-1234''\<rparr>]],
      xcrun_list = Inr [''com.apple.CoreSimulator.SimRuntime.iOS-12-2'' \<mapsto>
         [\<lparr>xc_udid = ''ABCD-1234'', xc_state = state\<rparr>]]\<rparr>"

text \<open>A simulator that never leaves \<open>Booted\<close>.\<close>

definition always_booted :: "nat \<Rightarrow> snapshot" where
  "always_booted k = sim_snapshot ''Booted''"

text \<open>A simulator reported \<open>Booted\<close>, \<open>Booted\<close>, then \<open>Shutdown\<close>.\<close>

definition flapping :: "nat \<Rightarrow> snapshot" where
  "flapping k = sim_snapshot (if k < 2 then ''Booted'' else ''Shutdown'')"

text \<open>
  A simulator that the registry knows and whose runtime \<open>xcrun simctl list\<close> does not
  list.
\<close>

definition no_runtime :: "nat \<Rightarrow> snapshot" where
  "no_runtime k =
     \<lparr>ti_info = Inr [''12.2'' \<mapsto> [\<lparr>ti_name = ''iPhone 7'', ti_udid = ''ABCD-1234''\<rparr>]],
      xcrun_list = Inr Map.empty\<rparr>"

text \<open>Worlds for \<open>killSim\<close> in which the spawned \<open>killall\<close> exits with status 1.\<close>

definition booted_world :: world where
  "booted_world = \<lparr>registry = sim_snapshot ''Booted'', shutdown_result = None,
     polled = always_booted, killall_exit = 1\<rparr>"

definition flapping_world :: world where
  "flapping_world = \<lparr>registry = sim_snapshot ''Booted'', shutdown_result = None,
     polled = flapping, killall_exit = 1\<rparr>"

text \<open>A process list with one emulator, started for the device \<open>Pixel_2\<close>.\<close>

definition example_procs :: "proc list" where
  "example_procs =
     [\<lparr>pid = 1, pname = ''launchd'', cmd = ''/sbin/launchd''\<rparr>,
      \<lparr>pid = 4242, pname = ''qemu-system-x86_64'',
       cmd = ''/sdk/emulator/qemu/qemu-system-x86_64 -avd Pixel_2''\<rparr>]"

definition example_certs :: "string \<rightharpoonup> cert list" where
  "example_certs = [''developer'' \<mapsto>
     [\<lparr>cert_name = ''iPhone Developer: Jo Bloggs'', cert_serial = ''01''\<rparr>]]"

text \<open>
  An environment for the screenshot pipeline: files in memory, directories not tracked,
  POSIX paths without normalisation, a crop utility that leaves the files alone when it
  gets no region, a diff engine that reports the given mismatch, and the printing of
  the numbers the examples use.
\<close>

definition base_of :: "string \<Rightarrow> string" where
  "base_of p = rev (takeWhile (\<lambda>c. c \<noteq> CHR ''/'') (rev p))"

definition dir_of :: "string \<Rightarrow> string" where
  "dir_of p = rev (drop 1 (dropWhile (\<lambda>c. c \<noteq> CHR ''/'') (rev p)))"

definition ext_of :: "string \<Rightarrow> string" where
  "ext_of b = (if CHR ''.'' \<in> set b then CHR ''.'' # rev (takeWhile (\<lambda>c. c \<noteq> CHR ''.'') (rev b))
     else [])"

definition parse_of :: "string \<Rightarrow> parsed_path" where
  "parse_of p =
     (let b = base_of p
      in \<lparr>p_root = [], p_dir = dir_of p, p_base = b, p_ext = ext_of b,
          p_name = take (length b - length (ext_of b)) b\<rparr>)"

definition show_pct :: "jsnum \<Rightarrow> string" where
  "show_pct x =
     (if x = Fin (1 / 5) then ''0.2''
      else if x = Fin (7 / 20) then ''0.35''
      else if x = Fin (3 / 20) then ''0.15''
      else if x = Fin (1 / 10) then ''0.1''
      else ''0'')"

definition mem_io :: "jsnum \<Rightarrow> env" where
  "mem_io m =
     \<lparr>ensureDirSync = (\<lambda>dir fs. Inr fs),
      writeFileSync = (\<lambda>p d fs. Inr (fs(p \<mapsto> d))),
      unlinkSync = (\<lambda>p fs. case fs p of None \<Rightarrow> Inl (External ''ENOENT'')
                                       | Some b \<Rightarrow> Inr (fs(p := None))),
      pngcrop = (\<lambda>src dst r fs.
         case r of
           None \<Rightarrow> (None, fs)
         | Some d \<Rightarrow> (case fs src of None \<Rightarrow> (Some (External ''ENOENT''), fs)
                                  | Some b \<Rightarrow> (None, fs(dst \<mapsto> ''cropped:'' @ b)))),
      resemble = (\<lambda>a b fs. m),
      path_join = (\<lambda>a b. a @ ''/'' @ b),
      path_basename = base_of,
      path_parse = parse_of,
      path_format = (\<lambda>e. p_dir e @ ''/'' @ p_name e @ p_ext e),
      num_str = show_pct\<rparr>"


text \<open>A reference image, the same with a candidate beside it, a region and a session.\<close>

definition example_files :: files where
  "example_files = [''app/shots/home.png'' \<mapsto> ''REFERENCE'']"

definition android_driver :: driver where
  "android_driver =
     \<lparr>sleep = None, getPlatform = Inr ''Android'',
      application_bounds = Inl (External ''no such element''),
      statusbar_bounds = Inl (External ''no such element''),
      decor_count = Inr 0,
      decor_bounds = Inl (External ''no such element''),
      takeScreenshot = Inr ''SCREEN''\<rparr>"

definition candidate_files :: files where
  "candidate_files = example_files(''app/Screen_Shots/home_Test.png'' \<mapsto> ''SCREEN'')"

definition example_region :: region where
  "example_region = \<lparr>r_height = 1280, r_width = 720, r_top = 48\<rparr>"

section \<open>Properties of the shutdown poll\<close>

declare poll.simps [simp del]

lemma runtime_key_12_2: "runtime_key ''12.2'' = ''com.apple.CoreSimulator.SimRuntime.iOS-12-2''"
  by (simp add: runtime_key_def part_def)

lemma getState_sim_snapshot:
  "getState (sim_snapshot st) ''iPhone 7'' ''12.2'' = (Inr st, [Exec ti_cmd, Exec xcrun_cmd])"
  by (simp add: getState_def getUdid_def sim_snapshot_def runtime_key_12_2)

lemma times_shift:
  "(now + iw) # map (\<lambda>k. now + iw + k * iw) [1..<Suc n]
     = map (\<lambda>k. now + k * iw) [1..<Suc (Suc n)]"
proof -
  have "[1..<Suc (Suc n)] = 1 # map Suc [1..<Suc n]"
    by (simp add: map_Suc_upt upt_conv_Cons del: upt_Suc)
  then show ?thesis
    by (simp add: comp_def del: upt_Suc)
qed

text \<open>Started below 20, the interval fires at least once and at most \<open>20 - count\<close> times.\<close>

lemma poll_length:
  "poll src n v iw count now = (out, ts, cs) \<Longrightarrow> count < 20
     \<Longrightarrow> ts \<noteq> [] \<and> length ts \<le> 20 - count"
proof (induction src n v iw count now arbitrary: out ts cs rule: poll.induct)
  case (1 src n v iw count now)
  from "1.prems" show ?case
    apply (subst (asm) poll.simps)
    using "1.IH" by (fastforce split: prod.splits sum.splits if_splits)
qed

text \<open>The checks are on the grid \<open>now + k * iw\<close>, \<open>k = 1, 2, ...\<close>.\<close>

lemma poll_times:
  "poll src n v iw count now = (out, ts, cs)
     \<Longrightarrow> ts = map (\<lambda>k. now + k * iw) [1..<Suc (length ts)]"
proof (induction src n v iw count now arbitrary: out ts cs rule: poll.induct)
  case (1 src n v iw count now)
  obtain r c where gs: "getState (src count) n v = (r, c)"
    by (metis prod.collapse)
  show ?case
  proof (cases "\<exists>s. r = Inr s \<and> s \<noteq> ''Shutdown'' \<and> \<not> 20 \<le> Suc count")
    case True
    then obtain s where s: "r = Inr s" "s \<noteq> ''Shutdown''" "\<not> 20 \<le> Suc count"
      by blast
    obtain out' ts' cs' where p: "poll src n v iw (Suc count) (now + iw) = (out', ts', cs')"
      by (metis prod.collapse)
    have ih: "ts' = map (\<lambda>k. now + iw + k * iw) [1..<Suc (length ts')]"
      using "1.IH"[OF gs[symmetric] s(1) s(2) s(3) p] by simp
    have ts: "ts = (now + iw) # ts'"
      using "1.prems" gs s p by (subst (asm) poll.simps) simp
    have "(now + iw) # ts' = map (\<lambda>k. now + k * iw) [1..<Suc (Suc (length ts'))]"
      by (subst ih) (simp only: times_shift length_map length_upt diff_Suc_1)
    then show ?thesis unfolding ts length_Cons .
  next
    case False
    have "ts = [now + iw]"
      using "1.prems" gs False
      by (subst (asm) poll.simps) (auto split: sum.splits if_splits)
    then show ?thesis by simp
  qed
qed

text \<open>Checks that all return a state other than \<open>Shutdown\<close> run into the limit.\<close>

lemma poll_timeout:
  "count < 20 \<Longrightarrow>
   (\<forall>k. count \<le> k \<and> k < 20 \<longrightarrow> (\<exists>s. fst (getState (src k) n v) = Inr s \<and> s \<noteq> ''Shutdown'')) \<Longrightarrow>
   poll src n v iw count now = (out, ts, cs) \<Longrightarrow>
   out = Rejected (Reason timeout_msg) \<and> length ts = 20 - count"
proof (induction src n v iw count now arbitrary: out ts cs rule: poll.induct)
  case (1 src n v iw count now)
  from "1.prems"(1,2) obtain s c
    where gs: "getState (src count) n v = (Inr s, c)" "s \<noteq> ''Shutdown''"
    by (metis le_refl prod.collapse)
  show ?case
  proof (cases "20 \<le> Suc count")
    case True
    with "1.prems" gs show ?thesis
      by (subst (asm) poll.simps) auto
  next
    case False
    obtain out' ts' cs' where p: "poll src n v iw (Suc count) (now + iw) = (out', ts', cs')"
      by (metis prod.collapse)
    from False "1.prems"(2)
    have "out' = Rejected (Reason timeout_msg) \<and> length ts' = 20 - Suc count"
      using "1.IH"[OF gs(1)[symmetric] refl gs(2) False _ _ p] by auto
    with "1.prems"(3) gs False p show ?thesis
      by (subst (asm) poll.simps) auto
  qed
qed

text \<open>The first check that returns \<open>Shutdown\<close> resolves the promise.\<close>

lemma poll_confirm:
  "count \<le> j \<Longrightarrow> j < 20 \<Longrightarrow>
   (\<forall>k. count \<le> k \<and> k < j \<longrightarrow> (\<exists>s. fst (getState (src k) n v) = Inr s \<and> s \<noteq> ''Shutdown'')) \<Longrightarrow>
   fst (getState (src j) n v) = Inr ''Shutdown'' \<Longrightarrow>
   poll src n v iw count now = (out, ts, cs) \<Longrightarrow>
   out = Resolved () \<and> length ts = Suc (j - count)"
proof (induction src n v iw count now arbitrary: out ts cs rule: poll.induct)
  case (1 src n v iw count now)
  show ?case
  proof (cases "count = j")
    case True
    with "1.prems"(4) obtain c where "getState (src count) n v = (Inr ''Shutdown'', c)"
      by (metis prod.collapse)
    with "1.prems"(5) True show ?thesis
      by (subst (asm) poll.simps) auto
  next
    case False
    with "1.prems"(1) have lt: "count < j" by simp
    with "1.prems"(3) obtain s c
      where gs: "getState (src count) n v = (Inr s, c)" "s \<noteq> ''Shutdown''"
      by (metis le_refl prod.collapse)
    from lt "1.prems"(2) have n20: "\<not> 20 \<le> Suc count" by simp
    obtain out' ts' cs' where p: "poll src n v iw (Suc count) (now + iw) = (out', ts', cs')"
      by (metis prod.collapse)
    have "out' = Resolved () \<and> length ts' = Suc (j - Suc count)"
      using "1.IH"[OF gs(1)[symmetric] refl gs(2) n20 _ "1.prems"(2) _ "1.prems"(4) p]
        lt "1.prems"(3)
      by auto
    with "1.prems"(5) gs n20 p lt show ?thesis
      by (subst (asm) poll.simps) auto
  qed
qed

lemma last_grid: "n \<noteq> 0 \<Longrightarrow> last (map (\<lambda>k. a + k * (d::nat)) [1..<Suc n]) = a + n * d"
  by (cases n) (simp_all add: last_map)

lemma hd_grid: "n \<noteq> 0 \<Longrightarrow> hd (map (\<lambda>k. a + k * (d::nat)) [1..<Suc n]) = a + d"
  by (cases n) (simp_all add: upt_conv_Cons hd_map del: upt_Suc)

text \<open>A state query that throws ends the run with the promise unsettled.\<close>

lemma poll_uncaught:
  "count \<le> j \<Longrightarrow> j < 20 \<Longrightarrow>
   (\<forall>k. count \<le> k \<and> k < j \<longrightarrow> (\<exists>s. fst (getState (src k) n v) = Inr s \<and> s \<noteq> ''Shutdown'')) \<Longrightarrow>
   fst (getState (src j) n v) = Inl e \<Longrightarrow>
   poll src n v iw count now = (out, ts, cs) \<Longrightarrow>
   out = Uncaught e \<and> length ts = Suc (j - count)"
proof (induction src n v iw count now arbitrary: out ts cs rule: poll.induct)
  case (1 src n v iw count now)
  show ?case
  proof (cases "count = j")
    case True
    with "1.prems"(4) obtain c where "getState (src count) n v = (Inl e, c)"
      by (metis prod.collapse)
    with "1.prems"(5) True show ?thesis
      by (subst (asm) poll.simps) auto
  next
    case False
    with "1.prems"(1) have lt: "count < j" by simp
    with "1.prems"(3) obtain s c
      where gs: "getState (src count) n v = (Inr s, c)" "s \<noteq> ''Shutdown''"
      by (metis le_refl prod.collapse)
    from lt "1.prems"(2) have n20: "\<not> 20 \<le> Suc count" by simp
    obtain out' ts' cs' where p: "poll src n v iw (Suc count) (now + iw) = (out', ts', cs')"
      by (metis prod.collapse)
    have "out' = Uncaught e \<and> length ts' = Suc (j - Suc count)"
      using "1.IH"[OF gs(1)[symmetric] refl gs(2) n20 _ "1.prems"(2) _ "1.prems"(4) p]
        lt "1.prems"(3)
      by auto
    with "1.prems"(5) gs n20 p lt show ?thesis
      by (subst (asm) poll.simps) auto
  qed
qed

text \<open>
  As long as every state query returns a state the poll is bounded: at least one and at
  most 20 checks, check number \<open>k\<close> at \<open>k\<close> interval delays after the initial delay,
  and after 20 states other than \<open>Shutdown\<close> the rejection with the timeout message.
\<close>

lemma isShutdown_bounded:
  assumes "isShutdown src simName simVersion initialWait intervalWait = (out, ts, cs)"
  shows "ts \<noteq> [] \<and> length ts \<le> 20
     \<and> ts = map (\<lambda>k. timer_delay initialWait + k * timer_delay intervalWait)
              [1..<Suc (length ts)]
     \<and> hd ts = timer_delay initialWait + timer_delay intervalWait
     \<and> (\<forall>t \<in> set ts. timer_delay initialWait \<le> t
            \<and> t \<le> timer_delay initialWait + 20 * timer_delay intervalWait)
     \<and> ((\<forall>k<20. \<exists>s. fst (getState (src k) simName simVersion) = Inr s \<and> s \<noteq> ''Shutdown'')
          \<longrightarrow> out = Rejected (Reason timeout_msg) \<and> length ts = 20
              \<and> last ts = timer_delay initialWait + 20 * timer_delay intervalWait)"
proof -
  let ?a = "timer_delay initialWait"
  let ?d = "timer_delay intervalWait"
  from assms have p: "poll src simName simVersion ?d 0 ?a = (out, ts, cs)"
    by (simp add: isShutdown_def)
  have len: "ts \<noteq> []" "length ts \<le> 20"
    using poll_length[OF p] by simp_all
  have grid: "ts = map (\<lambda>k. ?a + k * ?d) [1..<Suc (length ts)]"
    by (rule poll_times[OF p])
  from len(1) have n0: "length ts \<noteq> 0" by simp
  have first: "hd ts = ?a + ?d"
    by (subst grid) (rule hd_grid[OF n0])
  have bounds: "\<forall>t \<in> set ts. ?a \<le> t \<and> t \<le> ?a + 20 * ?d"
  proof
    fix t assume "t \<in> set ts"
    then have "t \<in> set (map (\<lambda>k. ?a + k * ?d) [1..<Suc (length ts)])"
      using grid by simp
    then have "\<exists>k. t = ?a + k * ?d \<and> k < Suc (length ts)"
      by (auto simp del: upt_Suc)
    then obtain k where k: "t = ?a + k * ?d" "k < Suc (length ts)"
      by blast
    from k(2) len(2) have "k * ?d \<le> 20 * ?d"
      by (intro mult_le_mono1) simp
    with k(1) show "?a \<le> t \<and> t \<le> ?a + 20 * ?d"
      by simp
  qed
  have timeout: "out = Rejected (Reason timeout_msg) \<and> length ts = 20 \<and> last ts = ?a + 20 * ?d"
    if h: "\<forall>k<20. \<exists>s. fst (getState (src k) simName simVersion) = Inr s \<and> s \<noteq> ''Shutdown''"
  proof -
    have r: "out = Rejected (Reason timeout_msg) \<and> length ts = 20 - 0"
      by (rule poll_timeout[OF _ _ p]) (use h in simp_all)
    then have l: "length ts = 20" by simp
    have "last ts = ?a + length ts * ?d"
      by (subst grid) (rule last_grid[OF n0])
    with r l show ?thesis by simp
  qed
  from len grid first bounds timeout show ?thesis by blast
qed

text \<open>
  C1. The claim is that the poll always ends, after at most 20 state checks, and rejects
  with the timeout message when no check observes \<open>Shutdown\<close>. The code does not, when
  a state query throws: here \<open>xcrun simctl list\<close> does not list the runtime, the one
  check, 11 ms after the start, observes no state, the exception leaves the timer
  callback before the counter and the interval are touched, and the promise is neither
  resolved nor rejected; \<open>getSimState\<close>, on the same world, hands the error to its
  caller.
\<close>

theorem isShutdown_throwing_query_never_settles:
  "getSimState (no_runtime 0) (Some ''iPhone 7'') (Some ''12.2'')
     = (Inl (Error (state_issue_msg ''iPhone 7'' ''12.2'')),
        [Exec ''ti info -t ios -o json'', Exec ''xcrun simctl list --json''])
   \<and> isShutdown no_runtime ''iPhone 7'' ''12.2'' 0 10
     = (Uncaught (Error (state_issue_msg ''iPhone 7'' ''12.2'')), [11],
        [Exec ''ti info -t ios -o json'', Exec ''xcrun simctl list --json''])"
  by code_simp

text \<open>
  C5. The poll resolves at the first check whose state is exactly \<open>Shutdown\<close>, whatever
  other states the earlier checks returned, provided that check is among the 20 the
  poll makes: when checks \<open>0 .. j - 1\<close> return other states and check \<open>j\<close> returns
  \<open>Shutdown\<close>, the promise resolves after \<open>j + 1\<close> checks, with no timeout. For a
  source reporting \<open>Booted\<close>, \<open>Booted\<close>, \<open>Shutdown\<close> that is the third check.
\<close>

theorem isShutdown_confirms_at_first_shutdown:
  assumes "j < 20"
    and "\<forall>k<j. \<exists>s. fst (getState (src k) simName simVersion) = Inr s \<and> s \<noteq> ''Shutdown''"
    and "fst (getState (src j) simName simVersion) = Inr ''Shutdown''"
    and "isShutdown src simName simVersion initialWait intervalWait = (out, ts, cs)"
  shows "out = Resolved () \<and> length ts = Suc j
     \<and> last ts = timer_delay initialWait + Suc j * timer_delay intervalWait"
proof -
  let ?a = "timer_delay initialWait"
  let ?d = "timer_delay intervalWait"
  from assms(4) have p: "poll src simName simVersion ?d 0 ?a = (out, ts, cs)"
    by (simp add: isShutdown_def)
  have r: "out = Resolved () \<and> length ts = Suc (j - 0)"
    by (rule poll_confirm[OF _ assms(1) _ assms(3) p]) (use assms(2) in simp_all)
  then have n0: "length ts \<noteq> 0" by simp
  have "ts = map (\<lambda>k. ?a + k * ?d) [1..<Suc (length ts)]"
    by (rule poll_times[OF p])
  then have "last ts = ?a + length ts * ?d"
    using last_grid[OF n0, of ?a ?d] by simp
  with r show ?thesis by simp
qed

theorem isShutdown_confirms_at_first_shutdown_witness:
  "fst (getState (flapping 0) ''iPhone 7'' ''12.2'') = Inr ''Booted''
   \<and> fst (getState (flapping 1) ''iPhone 7'' ''12.2'') = Inr ''Booted''
   \<and> fst (getState (flapping 2) ''iPhone 7'' ''12.2'') = Inr ''Shutdown''
   \<and> fst (isShutdown flapping ''iPhone 7'' ''12.2'' 0 10) = Resolved ()
   \<and> length (fst (snd (isShutdown flapping ''iPhone 7'' ''12.2'' 0 10))) = 3
   \<and> last (fst (snd (isShutdown flapping ''iPhone 7'' ''12.2'' 0 10))) = 31"
proof -
  have h1: "\<forall>k<2. \<exists>s. fst (getState (flapping k) ''iPhone 7'' ''12.2'') = Inr s
      \<and> s \<noteq> ''Shutdown''"
    by (simp add: flapping_def getState_sim_snapshot)
  have h2: "fst (getState (flapping 2) ''iPhone 7'' ''12.2'') = Inr ''Shutdown''"
    by (simp add: flapping_def getState_sim_snapshot)
  have t: "timer_delay 0 = 1" "timer_delay 10 = 10"
    by (simp_all add: timer_delay_def TIMEOUT_MAX_def)
  obtain out ts cs
    where r: "isShutdown flapping ''iPhone 7'' ''12.2'' 0 10 = (out, ts, cs)"
    by (metis prod.collapse)
  have "out = Resolved () \<and> length ts = Suc 2
      \<and> last ts = timer_delay 0 + Suc 2 * timer_delay 10"
    by (rule isShutdown_confirms_at_first_shutdown[OF _ h1 h2 r]) simp
  then have "out = Resolved () \<and> length ts = 3 \<and> last ts = 31"
    by (simp add: t)
  moreover have "fst (getState (flapping 0) ''iPhone 7'' ''12.2'') = Inr ''Booted''"
    "fst (getState (flapping 1) ''iPhone 7'' ''12.2'') = Inr ''Booted''"
    by (simp_all add: flapping_def getState_sim_snapshot)
  ultimately show ?thesis using h2 r by simp
qed

section \<open>Properties of the device entry points and queries\<close>

lemma str_includes_mid: "str_includes (a @ s @ b) s"
  by (simp add: str_includes_def)

lemma str_includes_end: "str_includes (a @ s) s"
  using str_includes_mid[of a s "[]"] by simp

lemma getUdid_calls: "snd (getUdid snap n v) = [Exec ti_cmd]"
  by (simp add: getUdid_def split: sum.splits option.splits)

lemma getState_no_spawn: "Spawn c a \<notin> set (snd (getState snap n v))"
proof -
  obtain r cs where u: "getUdid snap n v = (r, cs)" by (metis prod.collapse)
  with getUdid_calls[of snap n v] have "cs = [Exec ti_cmd]" by simp
  with u show ?thesis
    by (simp add: getState_def split: sum.splits option.splits)
qed

lemma poll_no_spawn:
  "poll src n v iw count now = (out, ts, cs) \<Longrightarrow> Spawn c a \<notin> set cs"
proof (induction src n v iw count now arbitrary: out ts cs rule: poll.induct)
  case (1 src n v iw count now)
  obtain r c0 where gs: "getState (src count) n v = (r, c0)"
    by (metis prod.collapse)
  with getState_no_spawn[of c a "src count" n v] have c0: "Spawn c a \<notin> set c0" by simp
  show ?case
  proof (cases "\<exists>s. r = Inr s \<and> s \<noteq> ''Shutdown'' \<and> \<not> 20 \<le> Suc count")
    case True
    then obtain s where s: "r = Inr s" "s \<noteq> ''Shutdown''" "\<not> 20 \<le> Suc count"
      by blast
    obtain out' ts' cs' where p: "poll src n v iw (Suc count) (now + iw) = (out', ts', cs')"
      by (metis prod.collapse)
    have ih: "Spawn c a \<notin> set cs'"
      using "1.IH"[OF gs[symmetric] s(1) s(2) s(3) p] .
    have "cs = c0 @ cs'"
      using "1.prems" gs s p by (subst (asm) poll.simps) simp
    with c0 ih show ?thesis by simp
  next
    case False
    have "cs = c0"
      using "1.prems" gs False
      by (subst (asm) poll.simps) (auto split: sum.splits if_splits)
    with c0 show ?thesis by simp
  qed
qed

lemma find_None_set: "(\<forall>x \<in> set xs. \<not> P x) \<Longrightarrow> find P xs = None"
  by (simp add: find_None_iff)

text \<open>
  C6, as the claim states it, fails: against a simulator that stays \<open>Booted\<close> the poll
  times out, \<open>killSim\<close> rejects with the timeout message, and \<open>killall\<close> is never
  spawned.
\<close>

theorem killSim_timeout_skips_cleanup:
  "fst (killSim booted_world (Some ''iPhone 7'') (Some ''12.2'') (Some 0) (Some 10))
     = Rejected (Reason timeout_msg)
   \<and> Spawn ''killall'' [''Simulator'']
       \<notin> set (snd (killSim booted_world (Some ''iPhone 7'') (Some ''12.2'') (Some 0) (Some 10)))"
  by code_simp

text \<open>
  C6, amended. Once the poll has confirmed the shutdown, \<open>killSim\<close> spawns
  \<open>killall Simulator\<close> as its last action and resolves, whatever the exit status of
  that process. When the poll does not confirm, \<open>killSim\<close> ends as the poll did (on a
  timeout: rejected with the timeout message) and does not spawn \<open>killall\<close>.
\<close>

theorem killSim_cleanup_after_confirmation:
  assumes "\<not> falsy simName" and "\<not> falsy simVersion"
    and "getUdid (registry w) (str simName) (str simVersion) = (Inr udid, c0)"
    and "shutdown_result w = None"
    and "isShutdown (polled w) (str simName) (str simVersion)
           (default_int initialWait 10000) (default_int intervalWait 5000) = (out, ts, cs)"
  shows "(out = Resolved () \<longrightarrow>
            killSim (w\<lparr>killall_exit := x\<rparr>) simName simVersion initialWait intervalWait
              = (Resolved (), c0 @ [Exec (''xcrun simctl shutdown '' @ udid)] @ cs
                   @ [Spawn ''killall'' [''Simulator'']]))
     \<and> (out \<noteq> Resolved () \<longrightarrow>
            fst (killSim w simName simVersion initialWait intervalWait) = out
          \<and> Spawn ''killall'' [''Simulator'']
               \<notin> set (snd (killSim w simName simVersion initialWait intervalWait)))"
proof -
  have c0: "c0 = [Exec ti_cmd]"
    using getUdid_calls[of "registry w" "str simName" "str simVersion"] assms(3) by simp
  have ns: "Spawn ''killall'' [''Simulator''] \<notin> set cs"
    using assms(5) by (simp add: isShutdown_def poll_no_spawn)
  show ?thesis
    using assms c0 ns by (cases out) (simp_all add: killSim_def)
qed

theorem killSim_cleanup_after_confirmation_witness:
  "killSim (flapping_world\<lparr>killall_exit := 0\<rparr>) (Some ''iPhone 7'') (Some ''12.2'')
       (Some 0) (Some 10)
     = (Resolved (),
        [Exec ''ti info -t ios -o json'', Exec ''xcrun simctl shutdown ABCD-1234'',
         Exec ''ti info -t ios -o json'', Exec ''xcrun simctl list --json'',
         Exec ''ti info -t ios -o json'', Exec ''xcrun simctl list --json'',
         Exec ''ti info -t ios -o json'', Exec ''xcrun simctl list --json'',
         Spawn ''killall'' [''Simulator'']])
   \<and> fst (killSim (booted_world\<lparr>polled := no_runtime\<rparr>) (Some ''iPhone 7'') (Some ''12.2'')
          (Some 0) (Some 10)) = Uncaught (Error (state_issue_msg ''iPhone 7'' ''12.2''))
   \<and> Spawn ''killall'' [''Simulator'']
       \<notin> set (snd (killSim (booted_world\<lparr>polled := no_runtime\<rparr>) (Some ''iPhone 7'')
                     (Some ''12.2'') (Some 0) (Some 10)))"
proof -
  let ?w = "booted_world\<lparr>polled := no_runtime\<rparr>"
  have a: "\<not> falsy (Some ''iPhone 7'')" "\<not> falsy (Some ''12.2'')"
    by (simp_all add: falsy_def)
  have b: "getUdid (registry flapping_world) (str (Some ''iPhone 7'')) (str (Some ''12.2''))
      = (Inr ''ABCD-1234'', [Exec ''ti info -t ios -o json''])"
    by code_simp
  have c: "shutdown_result flapping_world = None"
    by (simp add: flapping_world_def)
  have d: "isShutdown (polled flapping_world) (str (Some ''iPhone 7'')) (str (Some ''12.2''))
      (default_int (Some 0) 10000) (default_int (Some 10) 5000)
      = (Resolved (), [11, 21, 31],
         [Exec ''ti info -t ios -o json'', Exec ''xcrun simctl list --json'',
          Exec ''ti info -t ios -o json'', Exec ''xcrun simctl list --json'',
          Exec ''ti info -t ios -o json'', Exec ''xcrun simctl list --json''])"
    by code_simp
  from killSim_cleanup_after_confirmation[OF a b c d, of 0]
  have 1: "killSim (flapping_world\<lparr>killall_exit := 0\<rparr>) (Some ''iPhone 7'') (Some ''12.2'')
       (Some 0) (Some 10)
     = (Resolved (),
        [Exec ''ti info -t ios -o json'', Exec ''xcrun simctl shutdown ABCD-1234'',
         Exec ''ti info -t ios -o json'', Exec ''xcrun simctl list --json'',
         Exec ''ti info -t ios -o json'', Exec ''xcrun simctl list --json'',
         Exec ''ti info -t ios -o json'', Exec ''xcrun simctl list --json'',
         Spawn ''killall'' [''Simulator'']])"
    by simp
  have b': "getUdid (registry ?w) (str (Some ''iPhone 7'')) (str (Some ''12.2''))
      = (Inr ''ABCD-1234'', [Exec ''ti info -t ios -o json''])"
    by code_simp
  have c': "shutdown_result ?w = None"
    by (simp add: booted_world_def)
  have d': "isShutdown (polled ?w) (str (Some ''iPhone 7'')) (str (Some ''12.2''))
      (default_int (Some 0) 10000) (default_int (Some 10) 5000)
      = (Uncaught (Error (state_issue_msg ''iPhone 7'' ''12.2'')), [11],
         [Exec ''ti info -t ios -o json'', Exec ''xcrun simctl list --json''])"
    by code_simp
  from killSim_cleanup_after_confirmation[OF a b' c' d', of 0]
  have 2: "fst (killSim ?w (Some ''iPhone 7'') (Some ''12.2'') (Some 0) (Some 10))
       = Uncaught (Error (state_issue_msg ''iPhone 7'' ''12.2''))
     \<and> Spawn ''killall'' [''Simulator'']
       \<notin> set (snd (killSim ?w (Some ''iPhone 7'') (Some ''12.2'') (Some 0) (Some 10)))"
    by simp
  from 1 2 show ?thesis by blast
qed

text \<open>
  C7, as the claim states it, fails twice. A name missing from an existing version
  bucket gives an error that names the device but says nothing of the simulator's
  configuration; and on \<open>win32\<close> a device name that no process mentions still resolves,
  to the first emulator process.
\<close>

theorem resolution_errors_counterexample:
  "fst (getUdid (sim_snapshot ''Booted'') ''iPhone 8'' ''12.2'')
      = Inl (Error ''Cannot find a UDID for simulator iPhone 8 (12.2)'')
   \<and> \<not> str_includes ''Cannot find a UDID for simulator iPhone 8 (12.2)'' ''configured''
   \<and> filter (\<lambda>p. str_includes (cmd p) ''Nexus_5'' \<or> str_includes (pname p) ''Nexus_5'')
        example_procs = []
   \<and> fst (getAndroidPID ''win32'' (Inr example_procs) ''Nexus_5'') = Inr 4242"
  by code_simp

text \<open>
  C7, amended. A name/version pair absent from the registry makes \<open>getUdid\<close> throw
  an error naming the simulator and its version: with the configuration hint when the
  version has no bucket, as \<open>Cannot find a UDID for simulator ...\<close> when the bucket
  lacks the name. \<open>getAndroidPID\<close> throws an error naming the device when no process
  matches its rule: on \<open>win32\<close> an image name including \<open>qemu-system-x86_64\<close>,
  elsewhere a command line including the device name. Neither returns an id then.
\<close>

theorem resolution_fails_for_absent_device:
  "(ti_info snap = Inr sims \<and> sims simVersion = None \<longrightarrow>
       fst (getUdid snap simName simVersion) = Inl (Error (udid_issue_msg simName simVersion)))
   \<and> (ti_info snap = Inr sims \<and> sims simVersion = Some tiSims
        \<and> (\<forall>tiSim \<in> set tiSims. ti_name tiSim \<noteq> simName) \<longrightarrow>
       fst (getUdid snap simName simVersion) = Inl (Error (udid_missing_msg simName simVersion)))
   \<and> str_includes (udid_issue_msg simName simVersion) simName
   \<and> str_includes (udid_issue_msg simName simVersion) simVersion
   \<and> str_includes (udid_issue_msg simName simVersion) ''do you have this simulator configured?''
   \<and> str_includes (udid_missing_msg simName simVersion) simName
   \<and> str_includes (udid_missing_msg simName simVersion) simVersion
   \<and> (platform = ''win32''
        \<and> (\<forall>x \<in> set list. \<not> str_includes (pname x) ''qemu-system-x86_64'') \<longrightarrow>
       fst (getAndroidPID platform (Inr list) deviceName) = Inl (Error (pid_missing_msg deviceName)))
   \<and> (platform \<noteq> ''win32'' \<and> (\<forall>x \<in> set list. \<not> str_includes (cmd x) deviceName) \<longrightarrow>
       fst (getAndroidPID platform (Inr list) deviceName) = Inl (Error (pid_missing_msg deviceName)))
   \<and> str_includes (pid_missing_msg deviceName) deviceName"
proof -
  have a: "ti_info snap = Inr sims \<and> sims simVersion = None \<longrightarrow>
       fst (getUdid snap simName simVersion) = Inl (Error (udid_issue_msg simName simVersion))"
    by (simp add: getUdid_def)
  have b: "ti_info snap = Inr sims \<and> sims simVersion = Some tiSims
        \<and> (\<forall>tiSim \<in> set tiSims. ti_name tiSim \<noteq> simName) \<longrightarrow>
       fst (getUdid snap simName simVersion) = Inl (Error (udid_missing_msg simName simVersion))"
    by (simp add: getUdid_def find_None_set)
  have c: "str_includes (udid_issue_msg simName simVersion) simName"
    unfolding udid_issue_msg_def
    using str_includes_mid[of "''An issue occured trying to find the UDID of iOS simulator ''
        @ [CHR 0x22]" simName]
    by simp
  have d: "str_includes (udid_issue_msg simName simVersion) simVersion"
    unfolding udid_issue_msg_def
    using str_includes_mid[of "''An issue occured trying to find the UDID of iOS simulator ''
        @ [CHR 0x22] @ simName @ '' (''" simVersion]
    by simp
  have e: "str_includes (udid_issue_msg simName simVersion)
      ''do you have this simulator configured?''"
    unfolding udid_issue_msg_def
    using str_includes_end[of "''An issue occured trying to find the UDID of iOS simulator ''
        @ [CHR 0x22] @ simName @ '' ('' @ simVersion @ '')'' @ [CHR 0x22] @ '', ''"
        "''do you have this simulator configured?''"]
    by simp
  have f: "str_includes (udid_missing_msg simName simVersion) simName"
    unfolding udid_missing_msg_def by (rule str_includes_mid)
  have g: "str_includes (udid_missing_msg simName simVersion) simVersion"
    unfolding udid_missing_msg_def
    using str_includes_mid[of "''Cannot find a UDID for simulator '' @ simName @ '' (''"
        simVersion]
    by simp
  have h: "platform = ''win32''
        \<and> (\<forall>x \<in> set list. \<not> str_includes (pname x) ''qemu-system-x86_64'') \<longrightarrow>
       fst (getAndroidPID platform (Inr list) deviceName) = Inl (Error (pid_missing_msg deviceName))"
    by (simp add: getAndroidPID_def find_None_set)
  have i: "platform \<noteq> ''win32'' \<and> (\<forall>x \<in> set list. \<not> str_includes (cmd x) deviceName) \<longrightarrow>
       fst (getAndroidPID platform (Inr list) deviceName) = Inl (Error (pid_missing_msg deviceName))"
    by (simp add: getAndroidPID_def find_None_set)
  have j: "str_includes (pid_missing_msg deviceName) deviceName"
    unfolding pid_missing_msg_def by (rule str_includes_end)
  from a b c d e f g h i j show ?thesis by blast
qed

theorem resolution_fails_for_absent_device_witness:
  "fst (getUdid (sim_snapshot ''Booted'') ''iPhone 7'' ''13.0'')
      = Inl (Error (udid_issue_msg ''iPhone 7'' ''13.0''))
   \<and> fst (getUdid (sim_snapshot ''Booted'') ''iPhone 8'' ''12.2'')
      = Inl (Error (udid_missing_msg ''iPhone 8'' ''12.2''))
   \<and> fst (getAndroidPID ''win32'' (Inr [\<lparr>pid = 1, pname = ''launchd'', cmd = ''/sbin/launchd''\<rparr>])
        ''Pixel_2'') = Inl (Error (pid_missing_msg ''Pixel_2''))
   \<and> fst (getAndroidPID ''darwin'' (Inr example_procs) ''Nexus_5'')
      = Inl (Error (pid_missing_msg ''Nexus_5''))"
proof -
  let ?sims = "[''12.2'' \<mapsto> [\<lparr>ti_name = ''iPhone 7'', ti_udid = ''ABCD-1234''\<rparr>]]"
  let ?sim = "\<lparr>ti_name = ''iPhone 7'', ti_udid = ''ABCD-1234''\<rparr>"
  let ?launchd = "\<lparr>pid = 1, pname = ''launchd'', cmd = ''/sbin/launchd''\<rparr>"
  have t: "ti_info (sim_snapshot ''Booted'') = Inr ?sims"
    by (simp add: sim_snapshot_def)
  have v13: "?sims ''13.0'' = None" by simp
  have v12: "?sims ''12.2'' = Some [?sim]" by simp
  have n8: "\<forall>tiSim \<in> set [?sim]. ti_name tiSim \<noteq> ''iPhone 8''" by simp
  have w: "\<forall>x \<in> set [?launchd]. \<not> str_includes (pname x) ''qemu-system-x86_64''"
    by code_simp
  have u: "\<forall>x \<in> set example_procs. \<not> str_includes (cmd x) ''Nexus_5''"
    by code_simp
  have nw: "''darwin'' \<noteq> ''win32''" by simp
  from resolution_fails_for_absent_device[where snap = "sim_snapshot ''Booted''"
      and sims = ?sims and simVersion = "''13.0''" and simName = "''iPhone 7''"
      and platform = "''win32''" and list = "[?launchd]" and deviceName = "''Pixel_2''"]
    t v13 w
  have 1: "fst (getUdid (sim_snapshot ''Booted'') ''iPhone 7'' ''13.0'')
      = Inl (Error (udid_issue_msg ''iPhone 7'' ''13.0''))
   \<and> fst (getAndroidPID ''win32'' (Inr [?launchd]) ''Pixel_2'')
      = Inl (Error (pid_missing_msg ''Pixel_2''))"
    by blast
  from resolution_fails_for_absent_device[where snap = "sim_snapshot ''Booted''"
      and sims = ?sims and simVersion = "''12.2''" and simName = "''iPhone 8''"
      and tiSims = "[?sim]"
      and platform = "''darwin''" and list = example_procs and deviceName = "''Nexus_5''"]
    t v12 n8 u nw
  have 2: "fst (getUdid (sim_snapshot ''Booted'') ''iPhone 8'' ''12.2'')
      = Inl (Error (udid_missing_msg ''iPhone 8'' ''12.2''))
   \<and> fst (getAndroidPID ''darwin'' (Inr example_procs) ''Nexus_5'')
      = Inl (Error (pid_missing_msg ''Nexus_5''))"
    by blast
  from 1 2 show ?thesis by blast
qed

text \<open>
  C8, as the claim states it, fails for \<open>getCert\<close>: on macOS an unknown certificate
  type is refused only after \<open>ioslib.certs.getCerts()\<close> has run, and off macOS it is
  not refused at all.
\<close>

theorem configuration_errors_counterexample:
  "getCert ''darwin'' (Inr example_certs) ''enterprise'' ''Dev''
     = (Rejected (Error ''Argument 'enterprise' is not a valid type of certificate''),
        [LibCall ''ioslib.certs.getCerts''])
   \<and> getCert ''linux'' (Inr example_certs) ''enterprise'' ''Dev'' = (Resolved None, [])"
  by code_simp

text \<open>
  C8, amended. A missing or empty simulator name or version makes \<open>killSim\<close> and
  \<open>getSimState\<close> fail before any external command is run. An unknown certificate type
  makes \<open>getCert\<close> fail on macOS, after \<open>ioslib.certs.getCerts()\<close> has been called
  and has succeeded; off macOS \<open>getCert\<close> returns \<open>undefined\<close> whatever the type.
\<close>

theorem configuration_errors_fail_first:
  "(falsy simName \<longrightarrow>
       killSim w simName simVersion initialWait intervalWait
         = (Rejected (Error ''Empty simulator name argument passed''), [])
     \<and> getSimState snap simName simVersion
         = (Inl (Error ''Empty simulator name argument passed''), []))
   \<and> (\<not> falsy simName \<and> falsy simVersion \<longrightarrow>
       killSim w simName simVersion initialWait intervalWait
         = (Rejected (Error ''Empty simulator version passed''), [])
     \<and> getSimState snap simName simVersion
         = (Inl (Error ''Empty simulator version passed''), []))
   \<and> (type \<notin> set [''developer'', ''distribution''] \<longrightarrow>
       getCert ''darwin'' (Inr cs) type search
         = (Rejected (Error (cert_type_msg type)), [LibCall ''ioslib.certs.getCerts'']))
   \<and> (platform \<noteq> ''darwin'' \<longrightarrow> getCert platform certs type search = (Resolved None, []))"
  by (simp add: killSim_def getSimState_def getCert_def)

theorem configuration_errors_fail_first_witness:
  "killSim booted_world None (Some ''12.2'') None None
     = (Rejected (Error ''Empty simulator name argument passed''), [])
   \<and> getSimState (sim_snapshot ''Booted'') (Some ''iPhone 7'') (Some [])
     = (Inl (Error ''Empty simulator version passed''), [])
   \<and> getCert ''darwin'' (Inr example_certs) ''enterprise'' ''Dev''
        = (Rejected (Error (cert_type_msg ''enterprise'')), [LibCall ''ioslib.certs.getCerts''])
   \<and> getCert ''win32'' (Inr example_certs) ''enterprise'' ''Dev'' = (Resolved None, [])"
proof -
  have a: "falsy None" by (simp add: falsy_def)
  have b: "\<not> falsy (Some ''iPhone 7'') \<and> falsy (Some [])" by (simp add: falsy_def)
  have c: "''enterprise'' \<notin> set [''developer'', ''distribution'']" by simp
  have d: "''win32'' \<noteq> ''darwin''" by simp
  from configuration_errors_fail_first[where simName = None and simVersion = "Some ''12.2''"
      and w = booted_world and initialWait = None and intervalWait = None
      and type = "''enterprise''" and cs = example_certs and search = "''Dev''"
      and platform = "''win32''" and certs = "Inr example_certs"] a c d
  have 1: "killSim booted_world None (Some ''12.2'') None None
       = (Rejected (Error ''Empty simulator name argument passed''), [])
     \<and> getCert ''darwin'' (Inr example_certs) ''enterprise'' ''Dev''
        = (Rejected (Error (cert_type_msg ''enterprise'')), [LibCall ''ioslib.certs.getCerts''])
     \<and> getCert ''win32'' (Inr example_certs) ''enterprise'' ''Dev'' = (Resolved None, [])"
    by blast
  from configuration_errors_fail_first[where simName = "Some ''iPhone 7''"
      and simVersion = "Some []" and snap = "sim_snapshot ''Booted''"] b
  have 2: "getSimState (sim_snapshot ''Booted'') (Some ''iPhone 7'') (Some [])
     = (Inl (Error ''Empty simulator version passed''), [])"
    by blast
  from 1 2 show ?thesis by blast
qed

section \<open>Properties of the text commands\<close>

lemma toFixed2_ge7: "js_le (Fin 7) (toFixed2 (Fin r)) \<longleftrightarrow> 6995 / 1000 \<le> r"
proof (cases "10 ^ 21 \<le> \<bar>r\<bar>")
  case True
  then show ?thesis by (auto simp: toFixed2_def abs_if split: if_splits)
next
  case big: False
  show ?thesis
  proof (cases "r < 0")
    case True
    have "0 \<le> \<lfloor>- r * 100 + 1 / 2\<rfloor>" using True by simp
    then have "- (of_int \<lfloor>- r * 100 + 1 / 2\<rfloor> / 100) \<le> (0::rat)" by simp
    then have "\<not> 7 \<le> - (of_int \<lfloor>- r * 100 + 1 / 2\<rfloor> / 100 :: rat)" by linarith
    with True big show ?thesis by (simp add: toFixed2_def)
  next
    case False
    have "(7 \<le> (of_int \<lfloor>r * 100 + 1 / 2\<rfloor> / 100 :: rat)) \<longleftrightarrow> 700 \<le> \<lfloor>r * 100 + 1 / 2\<rfloor>"
      by (simp add: le_divide_eq) 
    also have "\<dots> \<longleftrightarrow> 700 \<le> r * 100 + 1 / 2"
      using le_floor_iff[of 700 "r * 100 + 1 / 2"] by simp
    also have "\<dots> \<longleftrightarrow> 6995 / 1000 \<le> r" by auto
    finally show ?thesis using False big by (simp add: toFixed2_def)
  qed
qed


lemma android_text_Fin:
  "android_text (Fin r) False label = (if 6995 / 1000 \<le> r then toUpperCase label else titleCase label)"
  by (simp add: android_text_def toFixed2_ge7)

text \<open>
  C9, as the claim states it, fails: the version is rounded to two decimals before it is
  compared, so on a platform version of 6.999, which is below 7.0, the text is put in
  upper case, not in title case.
\<close>

theorem elementText_rounds_version_counterexample:
  "(6999 / 1000 :: rat) < 7
   \<and> elementText ''Android'' (Fin (6999 / 1000)) ''hello world'' None
       = Some (ElementByAndroidUIAutomator (ui_selector ''HELLO WORLD''))
   \<and> titleCase ''hello world'' = ''Hello World''"
  by code_simp

text \<open>
  C9, amended. In the three text commands on Android, with \<open>preserve\<close> set the text
  is used unchanged. With \<open>preserve\<close> not set the platform version is rounded to two
  decimals and compared with 7: a version of at least 6.995 gives the text in upper
  case, a version below 6.995 or one that is not a number gives it in title case.
\<close>

theorem text_casing_by_version:
  "android_text version True label = label
   \<and> (version = Fin r \<and> 7 \<le> r \<longrightarrow> android_text version False label = toUpperCase label)
   \<and> (version = Fin r \<and> 6995 / 1000 \<le> r \<and> r < 7 \<longrightarrow>
        android_text version False label = toUpperCase label)
   \<and> (version = Fin r \<and> r < 6995 / 1000 \<longrightarrow> android_text version False label = titleCase label)
   \<and> (version = NaN \<longrightarrow> android_text version False label = titleCase label)
   \<and> android_text version False label
        = (if js_le (Fin 7) (toFixed2 version) then toUpperCase label else titleCase label)
   \<and> elementText ''Android'' version label preserve
        = Some (ElementByAndroidUIAutomator
                  (ui_selector (android_text version (default_bool preserve False) label)))
   \<and> elementsText ''Android'' version label preserve
        = Some (ElementsByAndroidUIAutomator
                  (ui_selector (android_text version (default_bool preserve False) label)))
   \<and> waitForElementText ''Android'' version label preserve time
        = Some (WaitForElementByAndroidUIAutomator
                  (ui_selector (android_text version (default_bool preserve False) label))
                  (default_nat time 1000))"
proof -
  have a: "android_text version True label = label"
    by (simp add: android_text_def)
  have b: "version = Fin r \<and> 7 \<le> r \<longrightarrow> android_text version False label = toUpperCase label"
    by (simp add: android_text_Fin)
  have c: "version = Fin r \<and> 6995 / 1000 \<le> r \<and> r < 7 \<longrightarrow>
        android_text version False label = toUpperCase label"
    by (simp add: android_text_Fin)
  have d: "version = Fin r \<and> r < 6995 / 1000 \<longrightarrow> android_text version False label = titleCase label"
    by (simp add: android_text_Fin)
  have e: "version = NaN \<longrightarrow> android_text version False label = titleCase label"
    by (simp add: android_text_def toFixed2_def)
  have f: "android_text version False label
        = (if js_le (Fin 7) (toFixed2 version) then toUpperCase label else titleCase label)"
    by (simp add: android_text_def)
  have g: "elementText ''Android'' version label preserve
        = Some (ElementByAndroidUIAutomator
                  (ui_selector (android_text version (default_bool preserve False) label)))"
    by (simp add: elementText_def)
  have h: "elementsText ''Android'' version label preserve
        = Some (ElementsByAndroidUIAutomator
                  (ui_selector (android_text version (default_bool preserve False) label)))"
    by (simp add: elementsText_def)
  have i: "waitForElementText ''Android'' version label preserve time
        = Some (WaitForElementByAndroidUIAutomator
                  (ui_selector (android_text version (default_bool preserve False) label))
                  (default_nat time 1000))"
    by (simp add: waitForElementText_def)
  from a b c d e f g h i show ?thesis by blast
qed

theorem text_casing_by_version_witness:
  "android_text (Fin 9) False ''hello world'' = ''HELLO WORLD''
   \<and> android_text (Fin (6999 / 1000)) False ''hello world'' = ''HELLO WORLD''
   \<and> android_text (Fin 6) False ''hello world'' = ''Hello World''
   \<and> android_text NaN False ''hello world'' = ''Hello World''
   \<and> android_text (Fin 9) True ''hello world'' = ''hello world''"
proof -
  have up: "toUpperCase ''hello world'' = ''HELLO WORLD''" by code_simp
  have ti: "titleCase ''hello world'' = ''Hello World''" by code_simp
  have 1: "android_text (Fin 9) False ''hello world'' = toUpperCase ''hello world''
     \<and> android_text (Fin 9) True ''hello world'' = ''hello world''"
    using text_casing_by_version[where version = "Fin 9" and r = "9" and label = "''hello world''"]
    by simp
  have 2: "android_text (Fin (6999 / 1000)) False ''hello world'' = toUpperCase ''hello world''"
    using text_casing_by_version[where version = "Fin (6999 / 1000)" and r = "6999 / 1000"
        and label = "''hello world''"]
    by simp
  have 3: "android_text (Fin 6) False ''hello world'' = titleCase ''hello world''"
    using text_casing_by_version[where version = "Fin 6" and r = "6" and label = "''hello world''"]
    by simp
  have 4: "android_text NaN False ''hello world'' = titleCase ''hello world''"
    using text_casing_by_version[where version = NaN and label = "''hello world''"]
    by simp
  from 1 2 3 4 up ti show ?thesis by simp
qed

section \<open>Properties of the screenshot pipeline\<close>

lemma cropImg_None:
  "cropImg io imgPath None fs
     = (Resolved None, snd (pngcrop io imgPath imgPath None fs), [Crop imgPath None])"
  by (simp add: cropImg_def split: prod.splits)





lemma cropImg_calls: "snd (snd (cropImg io imgPath dimensions fs)) = [Crop imgPath dimensions]"
  by (simp add: cropImg_def split: prod.splits option.splits)

lemma processImg_overwrite_calls:
  assumes "processImg io file modRoot screenshot thresh True dimensions fs = (out, fs', cs)"
  shows "set cs \<subseteq> {EnsureDir (path_join io modRoot ''Screen_Shots''),
     WriteFile file screenshot, Crop file dimensions}"
proof -
  have c: "\<And>f co cf cc. cropImg io file dimensions f = (co, cf, cc) \<Longrightarrow> cc = [Crop file dimensions]"
    using cropImg_calls[where io = io and imgPath = "file" and dimensions = dimensions]
    by (metis snd_conv)
  show ?thesis
    using assms
    by (auto simp: processImg_def Let_def split: sum.splits prod.splits outcome.splits dest: c)
qed

lemma processImg_overwrite_thresh:
  "processImg io file modRoot screenshot thresh True dimensions fs
     = processImg io file modRoot screenshot thresh' True dimensions fs"
  by (simp add: processImg_def Let_def split: sum.splits)

lemma cropImg_ok:
  "pngcrop io imgPath imgPath dimensions fs = (None, fs')
     \<Longrightarrow> \<exists>r. cropImg io imgPath dimensions fs = (Resolved r, fs', [Crop imgPath dimensions])"
  by (simp add: cropImg_def split: option.splits)

text \<open>
  C4. For every call of \<open>processImg\<close> with \<open>overwrite\<close> set, nothing is compared
  and nothing unlinked, the result does not depend on the threshold, and when the
  directory, the write of the screenshot to the reference path and the crop of that
  path succeed, the promise resolves.
\<close>

theorem processImg_overwrite_skips_comparison:
  assumes "processImg io file modRoot screenshot thresh True dimensions fs = (out, fs', cs)"
  shows "(\<forall>a b. Compare a b \<notin> set cs) \<and> (\<forall>p. Unlink p \<notin> set cs)
     \<and> processImg io file modRoot screenshot thresh' True dimensions fs = (out, fs', cs)
     \<and> (ensureDirSync io (path_join io modRoot ''Screen_Shots'') fs = Inr fs1
          \<and> writeFileSync io file screenshot fs1 = Inr fs2
          \<and> pngcrop io file file dimensions fs2 = (None, fs3) \<longrightarrow>
        out = Resolved () \<and> fs' = fs3
        \<and> cs = [EnsureDir (path_join io modRoot ''Screen_Shots''), WriteFile file screenshot,
                Crop file dimensions])"
proof -
  have a: "(\<forall>a b. Compare a b \<notin> set cs) \<and> (\<forall>p. Unlink p \<notin> set cs)"
    using processImg_overwrite_calls[OF assms] by auto
  have b: "processImg io file modRoot screenshot thresh' True dimensions fs = (out, fs', cs)"
    using assms processImg_overwrite_thresh[of io "file" modRoot screenshot thresh dimensions fs thresh']
    by simp
  have c: "out = Resolved () \<and> fs' = fs3
        \<and> cs = [EnsureDir (path_join io modRoot ''Screen_Shots''), WriteFile file screenshot,
                Crop file dimensions]"
    if h: "ensureDirSync io (path_join io modRoot ''Screen_Shots'') fs = Inr fs1"
      "writeFileSync io file screenshot fs1 = Inr fs2"
      "pngcrop io file file dimensions fs2 = (None, fs3)"
  proof -
    from cropImg_ok[OF h(3)] obtain r
      where "cropImg io file dimensions fs2 = (Resolved r, fs3, [Crop file dimensions])"
      by blast
    with assms h(1,2) show ?thesis
      by (simp add: processImg_def Let_def)
  qed
  from a b c show ?thesis by blast
qed

theorem processImg_overwrite_skips_comparison_witness:
  "processImg (mem_io (Fin (7 / 20))) ''app/shots/home.png'' ''app'' ''SCREEN''
       (Some (Fin (1 / 5))) True (Some example_region) example_files
     = (Resolved (), example_files(''app/shots/home.png'' \<mapsto> ''cropped:SCREEN''),
        [EnsureDir ''app/Screen_Shots'', WriteFile ''app/shots/home.png'' ''SCREEN'',
         Crop ''app/shots/home.png'' (Some example_region)])"
proof -
  let ?io = "mem_io (Fin (7 / 20))"
  let ?f = "''app/shots/home.png''"
  let ?fs2 = "example_files(?f \<mapsto> ''SCREEN'')"
  obtain out fs' cs
    where r: "processImg ?io ?f ''app'' ''SCREEN'' (Some (Fin (1 / 5))) True (Some example_region)
        example_files = (out, fs', cs)"
    by (metis prod.collapse)
  have j: "path_join ?io ''app'' ''Screen_Shots'' = ''app/Screen_Shots''"
    by (simp add: mem_io_def)
  have e: "ensureDirSync ?io (path_join ?io ''app'' ''Screen_Shots'') example_files
      = Inr example_files"
    by (simp add: mem_io_def)
  have w: "writeFileSync ?io ?f ''SCREEN'' example_files = Inr ?fs2"
    by (simp add: mem_io_def)
  have c: "pngcrop ?io ?f ?f (Some example_region) ?fs2
      = (None, example_files(?f \<mapsto> ''cropped:SCREEN''))"
    by (simp add: mem_io_def)
  from processImg_overwrite_skips_comparison[OF r, where ?fs1.0 = example_files
      and ?fs2.0 = ?fs2 and ?fs3.0 = "example_files(?f \<mapsto> ''cropped:SCREEN'')"] e w c j r
  show ?thesis by simp
qed

lemma threshold_of_falsy:
  "thresh = Some (Fin 0) \<or> thresh = Some NaN \<or> thresh = None
     \<Longrightarrow> threshold_of thresh = Fin (1 / 10)"
  by (auto simp: threshold_of_def truthy_num_def)

lemma threshold_of_default: "threshold_of (Some (Fin (1 / 10))) = Fin (1 / 10)"
  by (simp add: threshold_of_def truthy_num_def)

lemma compImg_threshold_of:
  "threshold_of t = threshold_of t' \<Longrightarrow> compImg io a b t fs = compImg io a b t' fs"
  by (simp add: compImg_def)

lemma processImg_threshold_of:
  "threshold_of t = threshold_of t'
     \<Longrightarrow> processImg io file modRoot screenshot t overwrite dimensions fs
         = processImg io file modRoot screenshot t' overwrite dimensions fs"
  by (simp add: processImg_def Let_def compImg_threshold_of[of t t']
      split: sum.splits prod.splits outcome.splits)

lemma shoot_threshold_of:
  "threshold_of t = threshold_of t'
     \<Longrightarrow> shoot io d file modRoot t overwrite dimensions fs
         = shoot io d file modRoot t' overwrite dimensions fs"
  by (simp add: shoot_def processImg_threshold_of[of t t'] split: sum.splits)

lemma compImg_pass:
  "js_le (resemble io testImg reference fs) (threshold_of thresh)
     \<Longrightarrow> compImg io testImg reference thresh fs
         = (case unlinkSync io testImg fs of
              Inl e \<Rightarrow> (Uncaught e, fs, [Compare testImg reference, Unlink testImg])
            | Inr f \<Rightarrow> (Resolved (), f, [Compare testImg reference, Unlink testImg]))"
  by (simp add: compImg_def)

lemma compImg_fail:
  "\<not> js_le (resemble io testImg reference fs) (threshold_of thresh)
     \<Longrightarrow> compImg io testImg reference thresh fs
         = (Rejected (Error (threshold_msg io (threshold_of thresh)
                               (resemble io testImg reference fs))), fs,
            [Compare testImg reference])"
  by (simp add: compImg_def)

lemma processImg_candidate:
  assumes "ensureDirSync io (path_join io modRoot ''Screen_Shots'') fs = Inr fs1"
    and "writeFileSync io (candidate_path io refImg modRoot) screenshot fs1 = Inr fs2"
    and "pngcrop io (candidate_path io refImg modRoot) (candidate_path io refImg modRoot) None fs2
           = (cropErr, fs3)"
  shows "processImg io refImg modRoot screenshot thresh False None fs
     = (case compImg io (candidate_path io refImg modRoot) refImg thresh fs3 of
          (out, fs4, cs) \<Rightarrow>
            (out, fs4,
             [EnsureDir (path_join io modRoot ''Screen_Shots''),
              WriteFile (candidate_path io refImg modRoot) screenshot,
              Crop (candidate_path io refImg modRoot) None] @ cs))"
  using assms by (simp add: processImg_def Let_def cropImg_def split: prod.splits)


lemma shoot_candidate:
  assumes "takeScreenshot d = Inr shot"
    and "ensureDirSync io (path_join io modRoot ''Screen_Shots'') fs = Inr fs1"
    and "writeFileSync io (candidate_path io refImg modRoot) shot fs1 = Inr fs2"
    and "pngcrop io (candidate_path io refImg modRoot) (candidate_path io refImg modRoot) None fs2
           = (cropErr, fs3)"
  shows "shoot io d refImg modRoot thresh False None fs
     = (if js_le (resemble io (candidate_path io refImg modRoot) refImg fs3) (threshold_of thresh)
        then (case unlinkSync io (candidate_path io refImg modRoot) fs3 of
                Inl e \<Rightarrow>
                  (Uncaught e, fs3,
                   [EnsureDir (path_join io modRoot ''Screen_Shots''),
                    WriteFile (candidate_path io refImg modRoot) shot,
                    Crop (candidate_path io refImg modRoot) None,
                    Compare (candidate_path io refImg modRoot) refImg,
                    Unlink (candidate_path io refImg modRoot)])
              | Inr f \<Rightarrow>
                  (Resolved (), f,
                   [EnsureDir (path_join io modRoot ''Screen_Shots''),
                    WriteFile (candidate_path io refImg modRoot) shot,
                    Crop (candidate_path io refImg modRoot) None,
                    Compare (candidate_path io refImg modRoot) refImg,
                    Unlink (candidate_path io refImg modRoot)]))
        else (Rejected (Error (threshold_msg io (threshold_of thresh)
                                 (resemble io (candidate_path io refImg modRoot) refImg fs3))),
              fs3,
              [EnsureDir (path_join io modRoot ''Screen_Shots''),
               WriteFile (candidate_path io refImg modRoot) shot,
               Crop (candidate_path io refImg modRoot) None,
               Compare (candidate_path io refImg modRoot) refImg]))"
proof (cases "js_le (resemble io (candidate_path io refImg modRoot) refImg fs3) (threshold_of thresh)")
  case True
  show ?thesis
    using assms(1) True
    by (simp add: shoot_def processImg_candidate[OF assms(2,3,4)] compImg_pass
        split: sum.splits)
next
  case False
  show ?thesis
    using assms(1) False
    by (simp add: shoot_def processImg_candidate[OF assms(2,3,4)] compImg_fail)
qed

text \<open>
  C10. A threshold of 0 (or \<open>NaN\<close>) handed to \<open>compImg\<close> is discarded and 0.10 is
  the threshold in force: a mismatch of at most 0.10 passes and the candidate is
  unlinked, although it exceeds the 0 that was asked for, and a mismatch above 0.10 is
  rejected with a message that names 0.10 as the threshold. The two screenshot commands
  replace only a missing threshold by their default, so a 0 given to them reaches
  \<open>compImg\<close> and is decided against 0.10 in the same way.
\<close>

theorem compImg_falsy_threshold_uses_default:
  assumes "t = Fin 0 \<or> t = NaN"
  shows "threshold_of (Some t) = Fin (1 / 10)
     \<and> (js_le (resemble io testImg reference fs) (Fin (1 / 10)) \<longrightarrow>
          compImg io testImg reference (Some t) fs
            = (case unlinkSync io testImg fs of
                 Inl e \<Rightarrow> (Uncaught e, fs, [Compare testImg reference, Unlink testImg])
               | Inr f \<Rightarrow> (Resolved (), f, [Compare testImg reference, Unlink testImg])))
     \<and> (\<not> js_le (resemble io testImg reference fs) (Fin (1 / 10)) \<longrightarrow>
          compImg io testImg reference (Some t) fs
            = (Rejected (Error (threshold_msg io (Fin (1 / 10))
                                  (resemble io testImg reference fs))), fs,
               [Compare testImg reference]))
     \<and> compImg io testImg reference (Some t) fs
         = compImg io testImg reference (Some (Fin (1 / 10))) fs
     \<and> default_thresh (Some t) = Some t
     \<and> screenshotTest io d refImg modRoot (Some t) overwrite fs
         = screenshotTest io d refImg modRoot (Some (Fin (1 / 10))) overwrite fs
     \<and> fullScreenshotTest io d refImg modRoot (Some t) overwrite fs
         = fullScreenshotTest io d refImg modRoot (Some (Fin (1 / 10))) overwrite fs
     \<and> ((overwrite = None \<or> overwrite = Some False) \<and> sleep d = None
          \<and> takeScreenshot d = Inr shot
          \<and> ensureDirSync io (path_join io modRoot ''Screen_Shots'') fs = Inr fs1
          \<and> writeFileSync io (candidate_path io refImg modRoot) shot fs1 = Inr fs2
          \<and> pngcrop io (candidate_path io refImg modRoot) (candidate_path io refImg modRoot)
                None fs2 = (cropErr, fs3)
          \<and> \<not> js_le (resemble io (candidate_path io refImg modRoot) refImg fs3) (Fin (1 / 10))
        \<longrightarrow> fullScreenshotTest io d refImg modRoot (Some t) overwrite fs
              = (Rejected (Error (threshold_msg io (Fin (1 / 10))
                    (resemble io (candidate_path io refImg modRoot) refImg fs3))),
                 fs3,
                 [EnsureDir (path_join io modRoot ''Screen_Shots''),
                  WriteFile (candidate_path io refImg modRoot) shot,
                  Crop (candidate_path io refImg modRoot) None,
                  Compare (candidate_path io refImg modRoot) refImg]))
     \<and> ((overwrite = None \<or> overwrite = Some False) \<and> sleep d = None
          \<and> takeScreenshot d = Inr shot
          \<and> ensureDirSync io (path_join io modRoot ''Screen_Shots'') fs = Inr fs1
          \<and> writeFileSync io (candidate_path io refImg modRoot) shot fs1 = Inr fs2
          \<and> pngcrop io (candidate_path io refImg modRoot) (candidate_path io refImg modRoot)
                None fs2 = (cropErr, fs3)
          \<and> js_le (resemble io (candidate_path io refImg modRoot) refImg fs3) (Fin (1 / 10))
          \<and> unlinkSync io (candidate_path io refImg modRoot) fs3 = Inr fs4
        \<longrightarrow> fullScreenshotTest io d refImg modRoot (Some t) overwrite fs
              = (Resolved (), fs4,
                 [EnsureDir (path_join io modRoot ''Screen_Shots''),
                  WriteFile (candidate_path io refImg modRoot) shot,
                  Crop (candidate_path io refImg modRoot) None,
                  Compare (candidate_path io refImg modRoot) refImg,
                  Unlink (candidate_path io refImg modRoot)]))
     \<and> ((overwrite = None \<or> overwrite = Some False) \<and> sleep d = None
          \<and> getPlatform d = Inr ''Android'' \<and> decor_count d = Inr 0
          \<and> takeScreenshot d = Inr shot
          \<and> ensureDirSync io (path_join io modRoot ''Screen_Shots'') fs = Inr fs1
          \<and> writeFileSync io (candidate_path io refImg modRoot) shot fs1 = Inr fs2
          \<and> pngcrop io (candidate_path io refImg modRoot) (candidate_path io refImg modRoot)
                None fs2 = (cropErr, fs3)
          \<and> \<not> js_le (resemble io (candidate_path io refImg modRoot) refImg fs3) (Fin (1 / 10))
        \<longrightarrow> screenshotTest io d refImg modRoot (Some t) overwrite fs
              = (Rejected (Error (threshold_msg io (Fin (1 / 10))
                    (resemble io (candidate_path io refImg modRoot) refImg fs3))),
                 fs3,
                 [EnsureDir (path_join io modRoot ''Screen_Shots''),
                  WriteFile (candidate_path io refImg modRoot) shot,
                  Crop (candidate_path io refImg modRoot) None,
                  Compare (candidate_path io refImg modRoot) refImg]))
     \<and> ((overwrite = None \<or> overwrite = Some False) \<and> sleep d = None
          \<and> getPlatform d = Inr ''Android'' \<and> decor_count d = Inr 0
          \<and> takeScreenshot d = Inr shot
          \<and> ensureDirSync io (path_join io modRoot ''Screen_Shots'') fs = Inr fs1
          \<and> writeFileSync io (candidate_path io refImg modRoot) shot fs1 = Inr fs2
          \<and> pngcrop io (candidate_path io refImg modRoot) (candidate_path io refImg modRoot)
                None fs2 = (cropErr, fs3)
          \<and> js_le (resemble io (candidate_path io refImg modRoot) refImg fs3) (Fin (1 / 10))
          \<and> unlinkSync io (candidate_path io refImg modRoot) fs3 = Inr fs4
        \<longrightarrow> screenshotTest io d refImg modRoot (Some t) overwrite fs
              = (Resolved (), fs4,
                 [EnsureDir (path_join io modRoot ''Screen_Shots''),
                  WriteFile (candidate_path io refImg modRoot) shot,
                  Crop (candidate_path io refImg modRoot) None,
                  Compare (candidate_path io refImg modRoot) refImg,
                  Unlink (candidate_path io refImg modRoot)]))"
proof -
  from assms have th: "threshold_of (Some t) = Fin (1 / 10)"
    by (simp add: threshold_of_falsy)
  then have eq: "threshold_of (Some t) = threshold_of (Some (Fin (1 / 10)))"
    by (simp add: threshold_of_default)
  have pass: "js_le (resemble io testImg reference fs) (Fin (1 / 10)) \<longrightarrow>
          compImg io testImg reference (Some t) fs
            = (case unlinkSync io testImg fs of
                 Inl e \<Rightarrow> (Uncaught e, fs, [Compare testImg reference, Unlink testImg])
               | Inr f \<Rightarrow> (Resolved (), f, [Compare testImg reference, Unlink testImg]))"
    using compImg_pass[of io testImg reference fs "Some t"] th by simp
  have fail: "\<not> js_le (resemble io testImg reference fs) (Fin (1 / 10)) \<longrightarrow>
          compImg io testImg reference (Some t) fs
            = (Rejected (Error (threshold_msg io (Fin (1 / 10))
                                  (resemble io testImg reference fs))), fs,
               [Compare testImg reference])"
    using compImg_fail[of io testImg reference fs "Some t"] th by simp
  have c: "compImg io testImg reference (Some t) fs
         = compImg io testImg reference (Some (Fin (1 / 10))) fs"
    by (rule compImg_threshold_of[OF eq])
  have dt: "default_thresh (Some t) = Some t"
    "default_thresh (Some (Fin (1 / 10))) = Some (Fin (1 / 10))"
    by (simp_all add: default_thresh_def)
  have s: "screenshotTest io d refImg modRoot (Some t) overwrite fs
         = screenshotTest io d refImg modRoot (Some (Fin (1 / 10))) overwrite fs"
    unfolding screenshotTest_def dt
    by (simp add: shoot_threshold_of[OF eq] split: option.splits sum.splits)
  have f: "fullScreenshotTest io d refImg modRoot (Some t) overwrite fs
         = fullScreenshotTest io d refImg modRoot (Some (Fin (1 / 10))) overwrite fs"
    unfolding fullScreenshotTest_def dt
    by (simp add: shoot_threshold_of[OF eq] split: option.splits)
  have full: "fullScreenshotTest io d refImg modRoot (Some t) overwrite fs
      = shoot io d refImg modRoot (Some t) False None fs"
    if "overwrite = None \<or> overwrite = Some False" "sleep d = None"
    using that by (auto simp: fullScreenshotTest_def dt default_bool_def)
  have e1: "fullScreenshotTest io d refImg modRoot (Some t) overwrite fs
              = (Rejected (Error (threshold_msg io (Fin (1 / 10))
                    (resemble io (candidate_path io refImg modRoot) refImg fs3))),
                 fs3,
                 [EnsureDir (path_join io modRoot ''Screen_Shots''),
                  WriteFile (candidate_path io refImg modRoot) shot,
                  Crop (candidate_path io refImg modRoot) None,
                  Compare (candidate_path io refImg modRoot) refImg])"
    if h: "overwrite = None \<or> overwrite = Some False" "sleep d = None"
      "takeScreenshot d = Inr shot"
      "ensureDirSync io (path_join io modRoot ''Screen_Shots'') fs = Inr fs1"
      "writeFileSync io (candidate_path io refImg modRoot) shot fs1 = Inr fs2"
      "pngcrop io (candidate_path io refImg modRoot) (candidate_path io refImg modRoot)
                None fs2 = (cropErr, fs3)"
      "\<not> js_le (resemble io (candidate_path io refImg modRoot) refImg fs3) (Fin (1 / 10))"
    using full[OF h(1,2)] shoot_candidate[OF h(3,4,5,6), of "Some t"] h(7) th by simp
  have e2: "fullScreenshotTest io d refImg modRoot (Some t) overwrite fs
              = (Resolved (), fs4,
                 [EnsureDir (path_join io modRoot ''Screen_Shots''),
                  WriteFile (candidate_path io refImg modRoot) shot,
                  Crop (candidate_path io refImg modRoot) None,
                  Compare (candidate_path io refImg modRoot) refImg,
                  Unlink (candidate_path io refImg modRoot)])"
    if h: "overwrite = None \<or> overwrite = Some False" "sleep d = None"
      "takeScreenshot d = Inr shot"
      "ensureDirSync io (path_join io modRoot ''Screen_Shots'') fs = Inr fs1"
      "writeFileSync io (candidate_path io refImg modRoot) shot fs1 = Inr fs2"
      "pngcrop io (candidate_path io refImg modRoot) (candidate_path io refImg modRoot)
                None fs2 = (cropErr, fs3)"
      "js_le (resemble io (candidate_path io refImg modRoot) refImg fs3) (Fin (1 / 10))"
      "unlinkSync io (candidate_path io refImg modRoot) fs3 = Inr fs4"
    using full[OF h(1,2)] shoot_candidate[OF h(3,4,5,6), of "Some t"] h(7,8) th by simp
  have E1: "(overwrite = None \<or> overwrite = Some False) \<and> sleep d = None
          \<and> takeScreenshot d = Inr shot
          \<and> ensureDirSync io (path_join io modRoot ''Screen_Shots'') fs = Inr fs1
          \<and> writeFileSync io (candidate_path io refImg modRoot) shot fs1 = Inr fs2
          \<and> pngcrop io (candidate_path io refImg modRoot) (candidate_path io refImg modRoot)
                None fs2 = (cropErr, fs3)
          \<and> \<not> js_le (resemble io (candidate_path io refImg modRoot) refImg fs3) (Fin (1 / 10))
        \<longrightarrow> fullScreenshotTest io d refImg modRoot (Some t) overwrite fs
              = (Rejected (Error (threshold_msg io (Fin (1 / 10))
                    (resemble io (candidate_path io refImg modRoot) refImg fs3))),
                 fs3,
                 [EnsureDir (path_join io modRoot ''Screen_Shots''),
                  WriteFile (candidate_path io refImg modRoot) shot,
                  Crop (candidate_path io refImg modRoot) None,
                  Compare (candidate_path io refImg modRoot) refImg])"
    by (intro impI, elim conjE, rule e1)
  have E2: "(overwrite = None \<or> overwrite = Some False) \<and> sleep d = None
          \<and> takeScreenshot d = Inr shot
          \<and> ensureDirSync io (path_join io modRoot ''Screen_Shots'') fs = Inr fs1
          \<and> writeFileSync io (candidate_path io refImg modRoot) shot fs1 = Inr fs2
          \<and> pngcrop io (candidate_path io refImg modRoot) (candidate_path io refImg modRoot)
                None fs2 = (cropErr, fs3)
          \<and> js_le (resemble io (candidate_path io refImg modRoot) refImg fs3) (Fin (1 / 10))
          \<and> unlinkSync io (candidate_path io refImg modRoot) fs3 = Inr fs4
        \<longrightarrow> fullScreenshotTest io d refImg modRoot (Some t) overwrite fs
              = (Resolved (), fs4,
                 [EnsureDir (path_join io modRoot ''Screen_Shots''),
                  WriteFile (candidate_path io refImg modRoot) shot,
                  Crop (candidate_path io refImg modRoot) None,
                  Compare (candidate_path io refImg modRoot) refImg,
                  Unlink (candidate_path io refImg modRoot)])"
    by (intro impI, elim conjE, rule e2)
  have part: "screenshotTest io d refImg modRoot (Some t) overwrite fs
      = shoot io d refImg modRoot (Some t) False None fs"
    if "overwrite = None \<or> overwrite = Some False" "sleep d = None"
      "getPlatform d = Inr ''Android''" "decor_count d = Inr 0"
    using that by (auto simp: screenshotTest_def dt default_bool_def)
  have e3: "screenshotTest io d refImg modRoot (Some t) overwrite fs
              = (Rejected (Error (threshold_msg io (Fin (1 / 10))
                    (resemble io (candidate_path io refImg modRoot) refImg fs3))),
                 fs3,
                 [EnsureDir (path_join io modRoot ''Screen_Shots''),
                  WriteFile (candidate_path io refImg modRoot) shot,
                  Crop (candidate_path io refImg modRoot) None,
                  Compare (candidate_path io refImg modRoot) refImg])"
    if h: "overwrite = None \<or> overwrite = Some False" "sleep d = None"
      "getPlatform d = Inr ''Android''" "decor_count d = Inr 0"
      "takeScreenshot d = Inr shot"
      "ensureDirSync io (path_join io modRoot ''Screen_Shots'') fs = Inr fs1"
      "writeFileSync io (candidate_path io refImg modRoot) shot fs1 = Inr fs2"
      "pngcrop io (candidate_path io refImg modRoot) (candidate_path io refImg modRoot)
                None fs2 = (cropErr, fs3)"
      "\<not> js_le (resemble io (candidate_path io refImg modRoot) refImg fs3) (Fin (1 / 10))"
    using part[OF h(1,2,3,4)] shoot_candidate[OF h(5,6,7,8), of "Some t"] h(9) th by simp
  have e4: "screenshotTest io d refImg modRoot (Some t) overwrite fs
              = (Resolved (), fs4,
                 [EnsureDir (path_join io modRoot ''Screen_Shots''),
                  WriteFile (candidate_path io refImg modRoot) shot,
                  Crop (candidate_path io refImg modRoot) None,
                  Compare (candidate_path io refImg modRoot) refImg,
                  Unlink (candidate_path io refImg modRoot)])"
    if h: "overwrite = None \<or> overwrite = Some False" "sleep d = None"
      "getPlatform d = Inr ''Android''" "decor_count d = Inr 0"
      "takeScreenshot d = Inr shot"
      "ensureDirSync io (path_join io modRoot ''Screen_Shots'') fs = Inr fs1"
      "writeFileSync io (candidate_path io refImg modRoot) shot fs1 = Inr fs2"
      "pngcrop io (candidate_path io refImg modRoot) (candidate_path io refImg modRoot)
                None fs2 = (cropErr, fs3)"
      "js_le (resemble io (candidate_path io refImg modRoot) refImg fs3) (Fin (1 / 10))"
      "unlinkSync io (candidate_path io refImg modRoot) fs3 = Inr fs4"
    using part[OF h(1,2,3,4)] shoot_candidate[OF h(5,6,7,8), of "Some t"] h(9,10) th by simp
  have E3: "(overwrite = None \<or> overwrite = Some False) \<and> sleep d = None
          \<and> getPlatform d = Inr ''Android'' \<and> decor_count d = Inr 0
          \<and> takeScreenshot d = Inr shot
          \<and> ensureDirSync io (path_join io modRoot ''Screen_Shots'') fs = Inr fs1
          \<and> writeFileSync io (candidate_path io refImg modRoot) shot fs1 = Inr fs2
          \<and> pngcrop io (candidate_path io refImg modRoot) (candidate_path io refImg modRoot)
                None fs2 = (cropErr, fs3)
          \<and> \<not> js_le (resemble io (candidate_path io refImg modRoot) refImg fs3) (Fin (1 / 10))
        \<longrightarrow> screenshotTest io d refImg modRoot (Some t) overwrite fs
              = (Rejected (Error (threshold_msg io (Fin (1 / 10))
                    (resemble io (candidate_path io refImg modRoot) refImg fs3))),
                 fs3,
                 [EnsureDir (path_join io modRoot ''Screen_Shots''),
                  WriteFile (candidate_path io refImg modRoot) shot,
                  Crop (candidate_path io refImg modRoot) None,
                  Compare (candidate_path io refImg modRoot) refImg])"
    by (intro impI, elim conjE, rule e3)
  have E4: "(overwrite = None \<or> overwrite = Some False) \<and> sleep d = None
          \<and> getPlatform d = Inr ''Android'' \<and> decor_count d = Inr 0
          \<and> takeScreenshot d = Inr shot
          \<and> ensureDirSync io (path_join io modRoot ''Screen_Shots'') fs = Inr fs1
          \<and> writeFileSync io (candidate_path io refImg modRoot) shot fs1 = Inr fs2
          \<and> pngcrop io (candidate_path io refImg modRoot) (candidate_path io refImg modRoot)
                None fs2 = (cropErr, fs3)
          \<and> js_le (resemble io (candidate_path io refImg modRoot) refImg fs3) (Fin (1 / 10))
          \<and> unlinkSync io (candidate_path io refImg modRoot) fs3 = Inr fs4
        \<longrightarrow> screenshotTest io d refImg modRoot (Some t) overwrite fs
              = (Resolved (), fs4,
                 [EnsureDir (path_join io modRoot ''Screen_Shots''),
                  WriteFile (candidate_path io refImg modRoot) shot,
                  Crop (candidate_path io refImg modRoot) None,
                  Compare (candidate_path io refImg modRoot) refImg,
                  Unlink (candidate_path io refImg modRoot)])"
    by (intro impI, elim conjE, rule e4)
  show ?thesis
    by (intro conjI)
      (fact th, fact pass, fact fail, fact c, fact dt(1), fact s, fact f, fact E1, fact E2,
       fact E3, fact E4)
qed

theorem compImg_falsy_threshold_uses_default_witness:
  "compImg (mem_io (Fin (1 / 20))) ''app/Screen_Shots/home_Test.png'' ''app/shots/home.png''
       (Some (Fin 0)) candidate_files
     = (Resolved (), candidate_files(''app/Screen_Shots/home_Test.png'' := None),
        [Compare ''app/Screen_Shots/home_Test.png'' ''app/shots/home.png'',
         Unlink ''app/Screen_Shots/home_Test.png''])
   \<and> compImg (mem_io (Fin (3 / 20))) ''app/Screen_Shots/home_Test.png'' ''app/shots/home.png''
       (Some (Fin 0)) candidate_files
     = (Rejected (Error ''Images didn't meet required threshold, wanted below: 0.1%, got: 0.15%''),
        candidate_files,
        [Compare ''app/Screen_Shots/home_Test.png'' ''app/shots/home.png''])
   \<and> fst (fullScreenshotTest (mem_io (Fin (3 / 20))) android_driver ''app/shots/home.png'' ''app''
          (Some (Fin 0)) None example_files)
     = Rejected (Error ''Images didn't meet required threshold, wanted below: 0.1%, got: 0.15%'')
   \<and> fst (screenshotTest (mem_io (Fin (1 / 20))) android_driver ''app/shots/home.png'' ''app''
          (Some (Fin 0)) None example_files) = Resolved ()
   \<and> fst (fullScreenshotTest (mem_io (Fin (1 / 20))) android_driver ''app/shots/home.png'' ''app''
          (Some (Fin 0)) None example_files) = Resolved ()
   \<and> fst (screenshotTest (mem_io (Fin (3 / 20))) android_driver ''app/shots/home.png'' ''app''
          (Some (Fin 0)) None example_files)
     = Rejected (Error ''Images didn't meet required threshold, wanted below: 0.1%, got: 0.15%'')"
proof -
  let ?t = "''app/Screen_Shots/home_Test.png''"
  let ?r = "''app/shots/home.png''"
  let ?fs2 = "example_files(?t \<mapsto> ''SCREEN'')"
  have a: "Fin 0 = Fin 0 \<or> Fin 0 = NaN" by simp
  have ov: "(None :: bool option) = None \<or> (None :: bool option) = Some False" by simp
  have dr: "sleep android_driver = None" "getPlatform android_driver = Inr ''Android''"
    "decor_count android_driver = Inr 0" "takeScreenshot android_driver = Inr ''SCREEN''"
    by (simp_all add: android_driver_def)
  have msg: "threshold_msg (mem_io (Fin (3 / 20))) (Fin (1 / 10)) (Fin (3 / 20))
      = ''Images didn't meet required threshold, wanted below: 0.1%, got: 0.15%''"
    by (simp add: mem_io_def threshold_msg_def show_pct_def)
  \<comment> \<open>the comparison alone\<close>
  note low = compImg_falsy_threshold_uses_default[OF a, where io = "mem_io (Fin (1 / 20))"
      and testImg = ?t and reference = ?r and fs = candidate_files]
  have p1: "js_le (resemble (mem_io (Fin (1 / 20))) ?t ?r candidate_files) (Fin (1 / 10))"
    by (simp add: mem_io_def)
  have u1: "unlinkSync (mem_io (Fin (1 / 20))) ?t candidate_files
      = Inr (candidate_files(?t := None))"
    by (simp add: mem_io_def candidate_files_def)
  from low[THEN conjunct2, THEN conjunct1] p1 u1
  have 1: "compImg (mem_io (Fin (1 / 20))) ?t ?r (Some (Fin 0)) candidate_files
     = (Resolved (), candidate_files(?t := None), [Compare ?t ?r, Unlink ?t])"
    by simp
  note high = compImg_falsy_threshold_uses_default[OF a, where io = "mem_io (Fin (3 / 20))"
      and testImg = ?t and reference = ?r and fs = candidate_files]
  have p2: "\<not> js_le (resemble (mem_io (Fin (3 / 20))) ?t ?r candidate_files) (Fin (1 / 10))"
    by (simp add: mem_io_def)
  have r2: "resemble (mem_io (Fin (3 / 20))) ?t ?r candidate_files = Fin (3 / 20)"
    by (simp add: mem_io_def)
  from high[THEN conjunct2, THEN conjunct2, THEN conjunct1] p2
  have "compImg (mem_io (Fin (3 / 20))) ?t ?r (Some (Fin 0)) candidate_files
     = (Rejected (Error (threshold_msg (mem_io (Fin (3 / 20))) (Fin (1 / 10))
          (resemble (mem_io (Fin (3 / 20))) ?t ?r candidate_files))), candidate_files,
        [Compare ?t ?r])"
    by blast
  then have 2: "compImg (mem_io (Fin (3 / 20))) ?t ?r (Some (Fin 0)) candidate_files
     = (Rejected (Error ''Images didn't meet required threshold, wanted below: 0.1%, got: 0.15%''),
        candidate_files, [Compare ?t ?r])"
    by (simp only: r2 msg)
  \<comment> \<open>through the screenshot commands\<close>
  have cp: "candidate_path (mem_io (Fin (3 / 20))) ?r ''app'' = ?t"
    "candidate_path (mem_io (Fin (1 / 20))) ?r ''app'' = ?t"
    by code_simp+
  have e: "\<And>m. ensureDirSync (mem_io m) (path_join (mem_io m) ''app'' ''Screen_Shots'')
      example_files = Inr example_files"
    by (simp add: mem_io_def)
  have w: "\<And>m. writeFileSync (mem_io m) ?t ''SCREEN'' example_files = Inr ?fs2"
    by (simp add: mem_io_def)
  have c: "\<And>m. pngcrop (mem_io m) ?t ?t None ?fs2 = (None, ?fs2)"
    by (simp add: mem_io_def)
  have q3: "\<not> js_le (resemble (mem_io (Fin (3 / 20))) ?t ?r ?fs2) (Fin (1 / 10))"
    by (simp add: mem_io_def)
  have r3: "resemble (mem_io (Fin (3 / 20))) ?t ?r ?fs2 = Fin (3 / 20)"
    by (simp add: mem_io_def)
  note full = compImg_falsy_threshold_uses_default[OF a, where io = "mem_io (Fin (3 / 20))"
      and d = android_driver and refImg = ?r and modRoot = "''app''" and overwrite = None
      and fs = example_files and shot = "''SCREEN''" and ?fs1.0 = example_files
      and ?fs2.0 = ?fs2 and ?fs3.0 = ?fs2 and cropErr = None]
  from full[THEN conjunct2, THEN conjunct2, THEN conjunct2, THEN conjunct2, THEN conjunct2,
      THEN conjunct2, THEN conjunct2, THEN conjunct1]
    ov dr e w c q3 cp
  have "fst (fullScreenshotTest (mem_io (Fin (3 / 20))) android_driver ?r ''app''
          (Some (Fin 0)) None example_files)
     = Rejected (Error (threshold_msg (mem_io (Fin (3 / 20))) (Fin (1 / 10))
          (resemble (mem_io (Fin (3 / 20))) ?t ?r ?fs2)))"
    by simp
  then have 3: "fst (fullScreenshotTest (mem_io (Fin (3 / 20))) android_driver ?r ''app''
          (Some (Fin 0)) None example_files)
     = Rejected (Error ''Images didn't meet required threshold, wanted below: 0.1%, got: 0.15%'')"
    by (simp only: r3 msg)
  have q4: "js_le (resemble (mem_io (Fin (1 / 20))) ?t ?r ?fs2) (Fin (1 / 10))"
    by (simp add: mem_io_def)
  have u4: "unlinkSync (mem_io (Fin (1 / 20))) ?t ?fs2 = Inr (?fs2(?t := None))"
    by (simp add: mem_io_def)
  note part = compImg_falsy_threshold_uses_default[OF a, where io = "mem_io (Fin (1 / 20))"
      and d = android_driver and refImg = ?r and modRoot = "''app''" and overwrite = None
      and fs = example_files and shot = "''SCREEN''" and ?fs1.0 = example_files
      and ?fs2.0 = ?fs2 and ?fs3.0 = ?fs2 and ?fs4.0 = "?fs2(?t := None)" and cropErr = None]
  from part[THEN conjunct2, THEN conjunct2, THEN conjunct2, THEN conjunct2, THEN conjunct2,
      THEN conjunct2, THEN conjunct2, THEN conjunct2, THEN conjunct2, THEN conjunct2]
    ov dr e w c q4 u4 cp
  have 4: "fst (screenshotTest (mem_io (Fin (1 / 20))) android_driver ?r ''app''
          (Some (Fin 0)) None example_files) = Resolved ()"
    by simp
  from part[THEN conjunct2, THEN conjunct2, THEN conjunct2, THEN conjunct2, THEN conjunct2,
      THEN conjunct2, THEN conjunct2, THEN conjunct2, THEN conjunct1]
    ov dr e w c q4 u4 cp
  have 5: "fst (fullScreenshotTest (mem_io (Fin (1 / 20))) android_driver ?r ''app''
          (Some (Fin 0)) None example_files) = Resolved ()"
    by simp
  from full[THEN conjunct2, THEN conjunct2, THEN conjunct2, THEN conjunct2, THEN conjunct2,
      THEN conjunct2, THEN conjunct2, THEN conjunct2, THEN conjunct2, THEN conjunct1]
    ov dr e w c q3 cp
  have "fst (screenshotTest (mem_io (Fin (3 / 20))) android_driver ?r ''app''
          (Some (Fin 0)) None example_files)
     = Rejected (Error (threshold_msg (mem_io (Fin (3 / 20))) (Fin (1 / 10))
          (resemble (mem_io (Fin (3 / 20))) ?t ?r ?fs2)))"
    by simp
  then have 6: "fst (screenshotTest (mem_io (Fin (3 / 20))) android_driver ?r ''app''
          (Some (Fin 0)) None example_files)
     = Rejected (Error ''Images didn't meet required threshold, wanted below: 0.1%, got: 0.15%'')"
    by (simp only: r3 msg)
  from 1 2 3 4 5 6 show ?thesis by blast
qed

end
